theory Spec2Isabelle
  imports Complex_Main
begin

section \<open>Python strings\<close>

text \<open>
  Strings are lists of characters.  The helpers below are the fragments of Python's
  \<^verbatim>\<open>str\<close> interface that \<^verbatim>\<open>api_handler.py\<close> and \<^verbatim>\<open>financial_analysis.py\<close> use:
  \<^verbatim>\<open>startswith\<close>, \<^verbatim>\<open>in\<close>, \<^verbatim>\<open>split\<close>, \<^verbatim>\<open>replace\<close>, \<^verbatim>\<open>strip\<close>, \<^verbatim>\<open>upper\<close>, \<^verbatim>\<open>lower\<close>,
  \<^verbatim>\<open>isdigit\<close>, \<^verbatim>\<open>int\<close>, \<^verbatim>\<open>str\<close> and \<^verbatim>\<open>float\<close>.  Characters are ASCII: the classification of
  characters beyond ASCII by \<^verbatim>\<open>isdigit\<close>, \<^verbatim>\<open>upper\<close> and \<^verbatim>\<open>lower\<close> is not represented.
\<close>

definition is_digit :: "char \<Rightarrow> bool" where
  "is_digit c = (c \<in> set ''0123456789'')"

text \<open>The value of a digit is its position in the sequence of the digits.\<close>

definition digit_val :: "char \<Rightarrow> nat" where
  "digit_val c = length (takeWhile (\<lambda>d. d \<noteq> c) ''0123456789'')"

definition digit_char :: "nat \<Rightarrow> char" where
  "digit_char n = ''0123456789'' ! n"

text \<open>\<^verbatim>\<open>s.isdigit()\<close>: every character is a digit and there is at least one.\<close>

definition str_isdigit :: "string \<Rightarrow> bool" where
  "str_isdigit s = (s \<noteq> [] \<and> list_all is_digit s)"

text \<open>\<^verbatim>\<open>int(s)\<close> on a string of digits.\<close>

definition nat_of_digits :: "string \<Rightarrow> nat" where
  "nat_of_digits s = foldl (\<lambda>a c. 10 * a + digit_val c) 0 s"

definition int_of_digits :: "string \<Rightarrow> int" where
  "int_of_digits s = int (nat_of_digits s)"

text \<open>\<^verbatim>\<open>str(n)\<close> for an integer.\<close>

fun digits_of :: "nat \<Rightarrow> string" where
  "digits_of n = (if n < 10 then [digit_char n] else digits_of (n div 10) @ [digit_char (n mod 10)])"

declare digits_of.simps [simp del]

definition str_int :: "int \<Rightarrow> string" where
  "str_int i = (if i < 0 then CHR ''-'' # digits_of (nat (- i)) else digits_of (nat i))"

text \<open>\<^verbatim>\<open>s.startswith(p)\<close> and the substring test \<^verbatim>\<open>sub in s\<close>.\<close>

definition startswith :: "string \<Rightarrow> string \<Rightarrow> bool" where
  "startswith p s = (take (length p) s = p)"

fun contains :: "string \<Rightarrow> string \<Rightarrow> bool" where
  "contains sub [] = (sub = [])"
| "contains sub (c # cs) = (startswith sub (c # cs) \<or> contains sub cs)"

text \<open>\<^verbatim>\<open>s.split(sep)\<close> for a separator of one character: never empty.\<close>

fun split_on :: "char \<Rightarrow> string \<Rightarrow> string list" where
  "split_on sep [] = [[]]"
| "split_on sep (c # cs) =
     (if c = sep then [] # split_on sep cs
      else (case split_on sep cs of
              [] \<Rightarrow> [[c]]
            | p # ps \<Rightarrow> (c # p) # ps))"

text \<open>\<^verbatim>\<open>s.replace(a, b)\<close> for a pattern \<^verbatim>\<open>a\<close> of one character.\<close>

definition replace_char :: "char \<Rightarrow> string \<Rightarrow> string \<Rightarrow> string" where
  "replace_char a b s = concat (map (\<lambda>c. if c = a then b else [c]) s)"

text \<open>\<^verbatim>\<open>s.strip()\<close>: ASCII white space is removed at both ends.\<close>

definition is_space :: "char \<Rightarrow> bool" where
  "is_space c =
     (c \<in> set [CHR '' '', CHR 0x09, CHR 0x0A, CHR 0x0B, CHR 0x0C, CHR 0x0D,
                CHR 0x1C, CHR 0x1D, CHR 0x1E, CHR 0x1F])"

definition strip :: "string \<Rightarrow> string" where
  "strip s = rev (dropWhile is_space (rev (dropWhile is_space s)))"

definition lower_letters :: string where
  "lower_letters = ''abcdefghijklmnopqrstuvwxyz''"

definition upper_letters :: string where
  "upper_letters = ''ABCDEFGHIJKLMNOPQRSTUVWXYZ''"

definition upper_char :: "char \<Rightarrow> char" where
  "upper_char c = (case map_of (zip lower_letters upper_letters) c of Some u \<Rightarrow> u | None \<Rightarrow> c)"

definition lower_char :: "char \<Rightarrow> char" where
  "lower_char c = (case map_of (zip upper_letters lower_letters) c of Some l \<Rightarrow> l | None \<Rightarrow> c)"

definition upper :: "string \<Rightarrow> string" where
  "upper s = map upper_char s"

definition lower :: "string \<Rightarrow> string" where
  "lower s = map lower_char s"

text \<open>\<^verbatim>\<open>range(a, b)\<close> over the integers: \<^verbatim>\<open>a, a + 1, ..., b - 1\<close>.\<close>

definition py_range :: "int \<Rightarrow> int \<Rightarrow> int list" where
  "py_range a b = [a .. b - 1]"

section \<open>Floating-point values and cells\<close>

text \<open>
  A Python float is a finite number, an infinity or NaN.  Finite floats are represented by
  the real number they denote: rounding, overflow to infinity and the sign of zero are not
  represented.  Comparisons and arithmetic on the special values follow IEEE 754, as
  Python and numpy do.
\<close>

datatype fval = Fin real | PInf | NInf | NaN

fun f_gt :: "fval \<Rightarrow> real \<Rightarrow> bool" where
  "f_gt (Fin x) r = (x > r)"
| "f_gt PInf r = True"
| "f_gt NInf r = False"
| "f_gt NaN r = False"

fun f_lt :: "fval \<Rightarrow> real \<Rightarrow> bool" where
  "f_lt (Fin x) r = (x < r)"
| "f_lt PInf r = False"
| "f_lt NInf r = True"
| "f_lt NaN r = False"

fun f_abs :: "fval \<Rightarrow> fval" where
  "f_abs (Fin x) = Fin \<bar>x\<bar>"
| "f_abs PInf = PInf"
| "f_abs NInf = PInf"
| "f_abs NaN = NaN"

fun f_neg :: "fval \<Rightarrow> fval" where
  "f_neg (Fin x) = Fin (- x)"
| "f_neg PInf = NInf"
| "f_neg NInf = PInf"
| "f_neg NaN = NaN"

fun f_add :: "fval \<Rightarrow> fval \<Rightarrow> fval" where
  "f_add NaN y = NaN"
| "f_add x NaN = NaN"
| "f_add (Fin x) (Fin y) = Fin (x + y)"
| "f_add PInf NInf = NaN"
| "f_add NInf PInf = NaN"
| "f_add PInf y = PInf"
| "f_add NInf y = NInf"
| "f_add (Fin x) y = y"

definition f_sub :: "fval \<Rightarrow> fval \<Rightarrow> fval" where
  "f_sub x y = f_add x (f_neg y)"

text \<open>The sign of a value: \<open>1\<close>, \<open>0\<close> or \<open>-1\<close> (NaN has none and is tested before).\<close>

fun f_sgn :: "fval \<Rightarrow> int" where
  "f_sgn (Fin x) = (if x > 0 then 1 else if x < 0 then - 1 else 0)"
| "f_sgn PInf = 1"
| "f_sgn NInf = - 1"
| "f_sgn NaN = 0"

definition f_inf_of_sign :: "int \<Rightarrow> fval" where
  "f_inf_of_sign s = (if s > 0 then PInf else if s < 0 then NInf else NaN)"

fun f_mul :: "fval \<Rightarrow> fval \<Rightarrow> fval" where
  "f_mul NaN y = NaN"
| "f_mul x NaN = NaN"
| "f_mul (Fin x) (Fin y) = Fin (x * y)"
| "f_mul x y = f_inf_of_sign (f_sgn x * f_sgn y)"

text \<open>
  Division as numpy performs it on \<^verbatim>\<open>float64\<close>: a finite nonzero number divided by zero
  is an infinity, zero divided by zero is NaN, and no exception is raised.
\<close>

fun f_div :: "fval \<Rightarrow> fval \<Rightarrow> fval" where
  "f_div NaN y = NaN"
| "f_div x NaN = NaN"
| "f_div (Fin x) (Fin y) = (if y = 0 then f_inf_of_sign (f_sgn (Fin x)) else Fin (x / y))"
| "f_div (Fin x) y = Fin 0"
| "f_div x (Fin y) = (if y < 0 then f_neg x else x)"
| "f_div x y = NaN"

definition f_isnan :: "fval \<Rightarrow> bool" where
  "f_isnan x = (x = NaN)"

definition f_isinf :: "fval \<Rightarrow> bool" where
  "f_isinf x = (x = PInf \<or> x = NInf)"

text \<open>
  A cell of a table: what a JSON reply or a pandas DataFrame holds at one position.
  \<open>CNone\<close> is Python's \<^verbatim>\<open>None\<close>; a missing position of a DataFrame is \<open>CFloat NaN\<close>.
\<close>

datatype cell = CInt int | CFloat fval | CStr string | CNone

text \<open>\<^verbatim>\<open>isinstance(v, (int, float))\<close>, \<^verbatim>\<open>isinstance(v, str)\<close>, \<^verbatim>\<open>pd.isna(v)\<close> and \<^verbatim>\<open>float(v)\<close>.\<close>

fun is_number :: "cell \<Rightarrow> bool" where
  "is_number (CInt i) = True"
| "is_number (CFloat x) = True"
| "is_number c = False"

fun is_str :: "cell \<Rightarrow> bool" where
  "is_str (CStr s) = True"
| "is_str c = False"

fun isna :: "cell \<Rightarrow> bool" where
  "isna (CFloat NaN) = True"
| "isna CNone = True"
| "isna c = False"

fun float_of_number :: "cell \<Rightarrow> fval" where
  "float_of_number (CInt i) = Fin (of_int i)"
| "float_of_number (CFloat x) = x"
| "float_of_number c = NaN"

text \<open>A Python \<^verbatim>\<open>dict\<close> keeps its keys in insertion order; assigning to a key that is
  present keeps its position.\<close>

type_synonym ('k, 'v) pydict = "('k \<times> 'v) list"

fun dict_set :: "'k \<Rightarrow> 'v \<Rightarrow> ('k, 'v) pydict \<Rightarrow> ('k, 'v) pydict" where
  "dict_set k v [] = [(k, v)]"
| "dict_set k v ((k', v') # d) = (if k = k' then (k, v) # d else (k', v') # dict_set k v d)"

definition dict_get :: "('k, 'v) pydict \<Rightarrow> 'k \<Rightarrow> 'v option" where
  "dict_get d k = map_of d k"

definition dict_keys :: "('k, 'v) pydict \<Rightarrow> 'k list" where
  "dict_keys d = map fst d"

text \<open>\<^verbatim>\<open>d.update(other)\<close>.\<close>

definition dict_update :: "('k, 'v) pydict \<Rightarrow> ('k, 'v) pydict \<Rightarrow> ('k, 'v) pydict" where
  "dict_update d other = foldl (\<lambda>acc (k, v). dict_set k v acc) d other"

section \<open>Period Resolver\<close>

text \<open>
  Lines 414 to 442 of \<^verbatim>\<open>fetch_company_by_ticker\<close>: the chain of rules that decodes the
  period token of a row, with \<open>cy\<close> the current calendar year.  The result is the value of
  the variable \<^verbatim>\<open>year\<close> after the chain, \<open>None\<close> when no rule assigned it.
\<close>

definition resolve_period_str :: "int \<Rightarrow> string \<Rightarrow> int option" where
  "resolve_period_str cy period =
     (if period \<noteq> [] \<and> startswith ''FY'' period \<and> length period > 2 \<and> str_isdigit (drop 2 period)
      then Some (int_of_digits (drop 2 period))
      else if period \<noteq> [] \<and> contains ''FY'' period \<and> CHR ''-'' \<in> set period
      then (let parts = split_on CHR ''-'' period in
            if length parts > 1 \<and> str_isdigit (parts ! 1)
            then Some (cy + (- int_of_digits (parts ! 1)))
            else None)
      else if period \<noteq> [] \<and> contains ''FY'' period \<and> CHR ''+'' \<in> set period
      then (let parts = split_on CHR ''+'' period in
            if length parts > 1 \<and> str_isdigit (parts ! 1)
            then Some (cy + int_of_digits (parts ! 1))
            else None)
      else if period = ''IQ_FY-0'' \<or> period = ''IQ_FY+0'' \<or> period = ''IQ_FY''
      then Some cy
      else find (\<lambda>year_candidate. contains (str_int year_candidate) period)
             (py_range (cy - 10) (cy + 2)))"

text \<open>
  The period of a row is whatever the table holds in column \<^verbatim>\<open>Period\<close>.  On a value that
  is not a string the chain raises (\<^verbatim>\<open>AttributeError\<close> or \<^verbatim>\<open>TypeError\<close>), the
  \<^verbatim>\<open>except\<close> clause of line 443 catches it, and \<^verbatim>\<open>year\<close> stays \<^verbatim>\<open>None\<close>.
\<close>

fun resolve_period :: "int \<Rightarrow> cell \<Rightarrow> int option" where
  "resolve_period cy (CStr period) = resolve_period_str cy period"
| "resolve_period cy c = None"

text \<open>
  Lines 447 to 461: when \<^verbatim>\<open>year\<close> is still unset (or zero), every column of the row is
  searched for a string that contains \<^verbatim>\<open>/\<close> or \<^verbatim>\<open>-\<close>; the string is cut at these
  separators and the first part that is a four-digit number between 2000 and 2030 is
  taken.  The \<^verbatim>\<open>break\<close> leaves the loop over the parts only, so a later column
  overwrites the year found in an earlier one.
\<close>

definition is_year_part :: "string \<Rightarrow> bool" where
  "is_year_part part =
     (str_isdigit part \<and> length part = 4 \<and> 2000 \<le> int_of_digits part \<and> int_of_digits part \<le> 2030)"

definition year_of_date_string :: "string \<Rightarrow> int option" where
  "year_of_date_string val =
     map_option int_of_digits
       (find is_year_part (split_on CHR ''-'' (replace_char CHR ''/'' ''-'' val)))"

fun year_from_cell :: "int option \<Rightarrow> cell \<Rightarrow> int option" where
  "year_from_cell year (CStr val) =
     (if CHR ''/'' \<in> set val \<or> CHR ''-'' \<in> set val
      then (case year_of_date_string val of Some y \<Rightarrow> Some y | None \<Rightarrow> year)
      else year)"
| "year_from_cell year c = year"

type_synonym row = "(string, cell) pydict"

text \<open>\<^verbatim>\<open>row[col]\<close> on a row of a DataFrame: every row holds every column.\<close>

definition row_get :: "row \<Rightarrow> string \<Rightarrow> cell" where
  "row_get r col = (case dict_get r col of Some v \<Rightarrow> v | None \<Rightarrow> CFloat NaN)"

definition year_from_dates :: "int option \<Rightarrow> string list \<Rightarrow> row \<Rightarrow> int option" where
  "year_from_dates year cols r = foldl (\<lambda>y col. year_from_cell y (row_get r col)) year cols"

text \<open>\<^verbatim>\<open>not year\<close>: the year is unset or zero.\<close>

fun not_year :: "int option \<Rightarrow> bool" where
  "not_year None = True"
| "not_year (Some y) = (y = 0)"

definition resolve_year :: "int \<Rightarrow> string list \<Rightarrow> row \<Rightarrow> int option" where
  "resolve_year cy cols r =
     (let year = resolve_period cy (row_get r ''Period'') in
      if not_year year then year_from_dates year cols r else year)"

section \<open>Value Extractor\<close>

text \<open>
  \<^verbatim>\<open>float(s)\<close> on a string: white space around the literal is ignored; the literal is an
  optional sign followed by \<^verbatim>\<open>inf\<close>, \<^verbatim>\<open>infinity\<close> or \<^verbatim>\<open>nan\<close> in any case, or by a
  decimal number with an optional fraction and exponent, where single underscores may
  separate digits.  \<open>None\<close> stands for \<^verbatim>\<open>ValueError\<close>.
\<close>

definition valid_digitpart :: "string \<Rightarrow> bool" where
  "valid_digitpart s =
     (s \<noteq> [] \<and> is_digit (hd s) \<and> is_digit (last s) \<and>
      list_all (\<lambda>c. is_digit c \<or> c = CHR ''_'') s \<and> \<not> contains ''__'' s)"

definition digitpart_val :: "string \<Rightarrow> nat" where
  "digitpart_val s = nat_of_digits (filter is_digit s)"

definition frac_val :: "string \<Rightarrow> real" where
  "frac_val fp = real (digitpart_val fp) / 10 ^ length (filter is_digit fp)"

definition parse_mantissa :: "string \<Rightarrow> real option" where
  "parse_mantissa m =
     (let ip = takeWhile (\<lambda>c. c \<noteq> CHR ''.'') m;
          rest = dropWhile (\<lambda>c. c \<noteq> CHR ''.'') m in
      if rest = [] then (if valid_digitpart ip then Some (real (digitpart_val ip)) else None)
      else (let fp = tl rest in
            if ip = [] then (if valid_digitpart fp then Some (frac_val fp) else None)
            else if valid_digitpart ip \<and> (fp = [] \<or> valid_digitpart fp)
            then Some (real (digitpart_val ip) + frac_val fp)
            else None))"

definition parse_exponent :: "string \<Rightarrow> int option" where
  "parse_exponent e =
     (case e of
        [] \<Rightarrow> None
      | c # r \<Rightarrow>
          (if c = CHR ''+'' then (if valid_digitpart r then Some (int (digitpart_val r)) else None)
           else if c = CHR ''-'' then (if valid_digitpart r then Some (- int (digitpart_val r)) else None)
           else if valid_digitpart e then Some (int (digitpart_val e)) else None))"

definition scale10 :: "real \<Rightarrow> int \<Rightarrow> real" where
  "scale10 x k = (if k \<ge> 0 then x * 10 ^ nat k else x / 10 ^ nat (- k))"

definition parse_number :: "string \<Rightarrow> real option" where
  "parse_number s =
     (let m = takeWhile (\<lambda>c. c \<noteq> CHR ''e'' \<and> c \<noteq> CHR ''E'') s;
          rest = dropWhile (\<lambda>c. c \<noteq> CHR ''e'' \<and> c \<noteq> CHR ''E'') s in
      case parse_mantissa m of
        None \<Rightarrow> None
      | Some x \<Rightarrow>
          (if rest = [] then Some x
           else (case parse_exponent (tl rest) of
                   None \<Rightarrow> None
                 | Some k \<Rightarrow> Some (scale10 x k))))"

definition parse_unsigned :: "string \<Rightarrow> fval option" where
  "parse_unsigned body =
     (if lower body = ''inf'' \<or> lower body = ''infinity'' then Some PInf
      else if lower body = ''nan'' then Some NaN
      else map_option Fin (parse_number body))"

definition py_float :: "string \<Rightarrow> fval option" where
  "py_float s =
     (case strip s of
        [] \<Rightarrow> None
      | c # r \<Rightarrow>
          (if c = CHR ''-'' then map_option f_neg (parse_unsigned r)
           else if c = CHR ''+'' then parse_unsigned r
           else parse_unsigned (c # r)))"

text \<open>The columns that carry no value (lines 386 and 503).\<close>

definition metadata_columns :: "string list" where
  "metadata_columns = [''Mnemonic'', ''Identifier'', ''Period'']"

definition financial_mnemonics :: "string list" where
  "financial_mnemonics =
     [''IQ_TOTAL_REV'', ''IQ_NI'', ''IQ_EBITDA'', ''IQ_EBIT'', ''IQ_TOTAL_ASSETS'',
      ''IQ_TOTAL_LIAB'', ''IQ_CASH_EQUIV'']"

text \<open>\<^verbatim>\<open>raw_value.replace(',', '').strip()\<close> followed by \<^verbatim>\<open>float\<close>.\<close>

definition clean_float :: "string \<Rightarrow> fval option" where
  "clean_float val = py_float (strip (replace_char CHR '','' [] val))"

text \<open>
  Lines 374 to 402: the value column of a metric is chosen once, from the first row of the
  metric.  Only the seven financial mnemonics get one; for any other mnemonic
  \<^verbatim>\<open>value_col\<close> stays \<^verbatim>\<open>None\<close>.
\<close>

fun looks_numeric :: "cell \<Rightarrow> bool" where
  "looks_numeric (CStr val) = (clean_float val \<noteq> None)"
| "looks_numeric c = is_number c"

definition find_value_col :: "string \<Rightarrow> string list \<Rightarrow> row \<Rightarrow> string option" where
  "find_value_col mnemonic cols first_row =
     (if mnemonic \<in> set financial_mnemonics
      then (if ''Value'' \<in> set cols then Some ''Value''
            else find (\<lambda>col. col \<notin> set metadata_columns \<and> looks_numeric (row_get first_row col)) cols)
      else None)"

text \<open>Lines 471 to 494: the value of the row in the chosen column.\<close>

definition unavailable_markers :: "string list" where
  "unavailable_markers = [''n/a'', ''data unavailable'', ''na'', [] ]"

fun primary_value :: "cell \<Rightarrow> fval option" where
  "primary_value (CStr raw_value) =
     (if CHR ''/'' \<in> set raw_value \<or> CHR ''-'' \<in> set raw_value \<or>
         lower raw_value \<in> set unavailable_markers
      then None
      else clean_float raw_value)"
| "primary_value c = (if isna c then None else if is_number c then Some (float_of_number c) else None)"

text \<open>Lines 497 to 532: the first other column that holds a number.\<close>

fun alternative_value :: "cell \<Rightarrow> fval option" where
  "alternative_value (CStr raw_value) =
     (if raw_value = [] then None
      else if CHR ''/'' \<in> set raw_value \<or> CHR ''-'' \<in> set raw_value \<or> length raw_value < 2
      then None
      else clean_float raw_value)"
| "alternative_value c = (if isna c then None else if is_number c then Some (float_of_number c) else None)"

fun first_some :: "('a \<Rightarrow> 'b option) \<Rightarrow> 'a list \<Rightarrow> 'b option" where
  "first_some f [] = None"
| "first_some f (x # xs) = (case f x of Some y \<Rightarrow> Some y | None \<Rightarrow> first_some f xs)"

definition extract_value :: "string \<Rightarrow> string list \<Rightarrow> row \<Rightarrow> fval option" where
  "extract_value value_col cols r =
     (case primary_value (row_get r value_col) of
        Some v \<Rightarrow> Some v
      | None \<Rightarrow>
          first_some (\<lambda>col. if col \<in> set metadata_columns \<or> col = value_col then None
                            else alternative_value (row_get r col)) cols)"

section \<open>Unit Normalizer\<close>

text \<open>Lines 535 to 553.\<close>

definition normalize_units :: "string \<Rightarrow> fval \<Rightarrow> fval" where
  "normalize_units mnemonic v =
     (if mnemonic = ''IQ_PE_RATIO'' \<or> mnemonic = ''IQ_PRICE_CLOSE'' then v
      else if mnemonic = ''IQ_MARKETCAP'' \<and> f_gt v 1000
      then (if f_gt v 1000000 then f_mul v (Fin 1000)
            else if f_lt v 100 then f_mul v (Fin 1000000)
            else v)
      else if f_gt (f_abs v) 1000000 \<and> mnemonic \<notin> set [''IQ_PE_RATIO'', ''IQ_PRICE_CLOSE'']
      then f_div v (Fin 1000000)
      else v)"

section \<open>Tables\<close>

text \<open>
  A pandas DataFrame: its column names, in order, and its rows; every row holds one cell
  for every column.  The index labels of the rows are not represented: a row is known by
  its position.  The column types of pandas (by which \<^verbatim>\<open>None\<close> in a numeric column is
  stored as NaN) are not represented either: a cell is stored as it was given.
\<close>

record dataframe =
  df_columns :: "string list"
  df_rows :: "row list"

text \<open>\<^verbatim>\<open>pd.DataFrame()\<close> and \<^verbatim>\<open>df.empty\<close>.\<close>

definition empty_df :: dataframe where
  "empty_df = \<lparr>df_columns = [], df_rows = []\<rparr>"

definition df_empty :: "dataframe \<Rightarrow> bool" where
  "df_empty df = (df_columns df = [] \<or> df_rows df = [])"

text \<open>The elements of a list without repetition, in the order of their first occurrence.\<close>

definition unique_in_order :: "'a list \<Rightarrow> 'a list" where
  "unique_in_order xs = foldl (\<lambda>acc x. if x \<in> set acc then acc else acc @ [x]) [] xs"

text \<open>
  \<^verbatim>\<open>pd.DataFrame.from_records(records)\<close> and \<^verbatim>\<open>pd.DataFrame(records)\<close> on a list of
  dictionaries: the columns are the keys in the order in which they first occur, and a key
  that a record lacks gives NaN.
\<close>

definition from_records :: "row list \<Rightarrow> dataframe" where
  "from_records records =
     (let cols = unique_in_order (concat (map dict_keys records)) in
      \<lparr>df_columns = cols,
       df_rows = map (\<lambda>r. map (\<lambda>c. (c, row_get r c)) cols) records\<rparr>)"

text \<open>\<^verbatim>\<open>df.fillna(pd.NA)\<close>: a missing cell stays missing (written \<open>CFloat NaN\<close>), any other
  cell is kept.\<close>

definition fillna_NA :: "dataframe \<Rightarrow> dataframe" where
  "fillna_NA df =
     df\<lparr>df_rows := map (map (\<lambda>(c, v). (c, if isna v then CFloat NaN else v))) (df_rows df)\<rparr>"

section \<open>Request Planner and transport\<close>

datatype py_error = ValueError | TypeError | KeyError | HTTPError | OSError

record request =
  req_function :: string
  req_identifier :: string
  req_mnemonic :: string
  req_periodType :: "string option"
  req_numberOfPeriods :: "int option"

definition gdsp :: "string \<Rightarrow> string \<Rightarrow> string option \<Rightarrow> request" where
  "gdsp cid mn pt =
     \<lparr>req_function = ''GDSP'', req_identifier = cid, req_mnemonic = mn,
      req_periodType = pt, req_numberOfPeriods = None\<rparr>"

text \<open>Lines 109 to 155: the requests for one financial mnemonic.\<close>

definition financial_requests :: "int \<Rightarrow> int \<Rightarrow> string \<Rightarrow> string \<Rightarrow> request list" where
  "financial_requests current_year years cid mn =
     \<lparr>req_function = ''GDSHE'', req_identifier = cid, req_mnemonic = mn,
      req_periodType = Some ''IQ_FY'', req_numberOfPeriods = Some (years + 2)\<rparr>
     # concat (map (\<lambda>offset.
          if offset < 0
          then [gdsp cid mn (Some (''IQ_FY'' @ str_int offset)),
                gdsp cid mn (Some (''FY'' @ str_int (current_year + offset)))]
          else [gdsp cid mn (Some (''IQ_FY+'' @ str_int offset))])
        (py_range (- (years - 1)) 2))"

definition build_requests :: "int \<Rightarrow> string list \<Rightarrow> int \<Rightarrow> request list" where
  "build_requests current_year company_ids years =
     concat (map (\<lambda>cid.
        [gdsp cid ''IQ_COMPANY_NAME'' None, gdsp cid ''IQ_COMPANY_ID'' None,
         gdsp cid ''IQ_ULT_PARENT'' None]
        @ concat (map (financial_requests current_year years cid) financial_mnemonics)
        @ map (\<lambda>mn. gdsp cid mn None) [''IQ_MARKETCAP'', ''IQ_PRICE_CLOSE'', ''IQ_PE_RATIO'']
        @ concat (map (\<lambda>mn. map (\<lambda>i. gdsp cid mn (Some (''IQ_FY+'' @ str_int i))) (py_range 1 (years + 1)))
            [''IQ_REVENUE_EST_CIQ'', ''IQ_EBITDA_EST_CIQ'', ''IQ_EPS_EST_CIQ'']))
      company_ids)"

text \<open>
  One element of the list \<^verbatim>\<open>GDSSDKResponse\<close>: the fields that \<^verbatim>\<open>parse_to_table\<close> reads,
  with the defaults of its \<^verbatim>\<open>get\<close> calls for the fields a reply lacks.  Every entry of
  \<^verbatim>\<open>Rows\<close> is represented by its list \<^verbatim>\<open>Row\<close>.
\<close>

record reply =
  rep_identifier :: string
  rep_mnemonic :: string
  rep_headers :: "string list"
  rep_periodtype :: string
  rep_rows :: "cell list list"

text \<open>
  What a run meets outside the program: the calendar year, the environment variables, the
  outcome of \<^verbatim>\<open>ciq_token\<close> for a user and a password, the outcome of one POST of a batch of
  requests under a token (\<^verbatim>\<open>raise_for_status\<close> and the decoding of the reply included),
  and the outcome of writing the raw table to a file.
\<close>

record environment =
  env_year :: int
  env_getenv :: "string \<Rightarrow> string option"
  env_token :: "string \<Rightarrow> string \<Rightarrow> py_error + string"
  env_post :: "string \<Rightarrow> request list \<Rightarrow> py_error + reply list"
  env_to_csv :: "string \<Rightarrow> py_error option"

definition BATCH_SIZE :: nat where
  "BATCH_SIZE = 100"

text \<open>\<^verbatim>\<open>_need\<close>: an unset or empty variable raises \<^verbatim>\<open>ValueError\<close>.\<close>

definition need :: "environment \<Rightarrow> string \<Rightarrow> py_error + string" where
  "need env key =
     (case env_getenv env key of
        None \<Rightarrow> Inl ValueError
      | Some val \<Rightarrow> if val = [] then Inl ValueError else Inr val)"

text \<open>The slices \<^verbatim>\<open>xs[i: i + n]\<close> for \<^verbatim>\<open>i\<close> in \<^verbatim>\<open>range(0, len(xs), n)\<close>.\<close>

function batches :: "nat \<Rightarrow> 'a list \<Rightarrow> 'a list list" where
  "batches n xs = (if n = 0 \<or> xs = [] then [] else take n xs # batches n (drop n xs))"
  by pat_completeness auto
termination
  by (relation "measure (\<lambda>(n, xs). length xs)") auto

declare batches.simps [simp del]

fun post_all :: "environment \<Rightarrow> string \<Rightarrow> request list list \<Rightarrow> py_error + reply list" where
  "post_all env token [] = Inr []"
| "post_all env token (b # bs) =
     (case env_post env token b of
        Inl e \<Rightarrow> Inl e
      | Inr replies \<Rightarrow>
          (case post_all env token bs of
             Inl e \<Rightarrow> Inl e
           | Inr others \<Rightarrow> Inr (replies @ others)))"

definition ciq_fetch :: "environment \<Rightarrow> request list \<Rightarrow> py_error + reply list" where
  "ciq_fetch env input_requests =
     (case need env ''CIQ_USER'' of
        Inl e \<Rightarrow> Inl e
      | Inr user \<Rightarrow>
          (case need env ''CIQ_PASS'' of
             Inl e \<Rightarrow> Inl e
           | Inr pwd \<Rightarrow>
               (case env_token env user pwd of
                  Inl e \<Rightarrow> Inl e
                | Inr token \<Rightarrow> post_all env token (batches BATCH_SIZE input_requests))))"

section \<open>Response Flattener\<close>

definition flat_record :: "reply \<Rightarrow> cell list \<Rightarrow> row" where
  "flat_record rep entry =
     dict_update
       [(''Identifier'', CStr (rep_identifier rep)), (''Mnemonic'', CStr (rep_mnemonic rep)),
        (''Period'', CStr (rep_periodtype rep))]
       (dict_update [] (zip (rep_headers rep) entry))"

definition flat_records :: "reply list \<Rightarrow> row list" where
  "flat_records rows = concat (map (\<lambda>rep. map (flat_record rep) (rep_rows rep)) rows)"

definition parse_to_table :: "reply list \<Rightarrow> dataframe" where
  "parse_to_table rows = from_records (flat_records rows)"

definition fetch_data_from_api :: "environment \<Rightarrow> string list \<Rightarrow> int \<Rightarrow> dataframe" where
  "fetch_data_from_api env company_ids years =
     (case ciq_fetch env (build_requests (env_year env) company_ids years) of
        Inl e \<Rightarrow> empty_df
      | Inr api_response \<Rightarrow> parse_to_table api_response)"

section \<open>Canonical Assembler\<close>

text \<open>The metrics of interest and their friendly names, in the order of the dictionary of
  lines 276 to 287.\<close>

definition metrics :: "(string, string) pydict" where
  "metrics =
     [(''IQ_TOTAL_REV'', ''Revenue''), (''IQ_NI'', ''Net Income''), (''IQ_EBITDA'', ''EBITDA''),
      (''IQ_EBIT'', ''EBIT''), (''IQ_TOTAL_ASSETS'', ''Total Assets''),
      (''IQ_TOTAL_LIAB'', ''Total Liabilities''), (''IQ_CASH_EQUIV'', ''Cash & Equivalents''),
      (''IQ_PE_RATIO'', ''P/E Ratio''), (''IQ_MARKETCAP'', ''Market Cap''),
      (''IQ_PRICE_CLOSE'', ''Stock Price'')]"

text \<open>Lines 298 to 336: the values written into the rows of ticker \<^verbatim>\<open>AAPL\<close>.\<close>

definition apple_historical :: "(int, (string, real) pydict) pydict" where
  "apple_historical =
     [(2021, [(''Revenue'', 365817 / 1000000), (''Net Income'', 94680 / 1000000),
              (''EBITDA'', 120233 / 1000000), (''EBIT'', 108949 / 1000000),
              (''Total Assets'', 351002 / 1000000), (''Total Liabilities'', 287912 / 1000000),
              (''Cash & Equivalents'', 34940 / 1000000)]),
      (2022, [(''Revenue'', 394328 / 1000000), (''Net Income'', 99803 / 1000000),
              (''EBITDA'', 130541 / 1000000), (''EBIT'', 119437 / 1000000),
              (''Total Assets'', 352755 / 1000000), (''Total Liabilities'', 302083 / 1000000),
              (''Cash & Equivalents'', 23646 / 1000000)]),
      (2023, [(''Revenue'', 383285 / 1000000), (''Net Income'', 96995 / 1000000),
              (''EBITDA'', 125937 / 1000000), (''EBIT'', 114300 / 1000000),
              (''Total Assets'', 355610 / 1000000), (''Total Liabilities'', 290437 / 1000000),
              (''Cash & Equivalents'', 29965 / 1000000)]),
      (2024, [(''Revenue'', 3857 / 10), (''Net Income'', 973 / 10), (''EBITDA'', 1265 / 10),
              (''EBIT'', 1151 / 10), (''Total Assets'', 3582 / 10),
              (''Total Liabilities'', 2918 / 10), (''Cash & Equivalents'', 302 / 10)])]"

text \<open>Lines 261 to 268: the company name is the first non-empty string of the first
  \<^verbatim>\<open>IQ_COMPANY_NAME\<close> row outside the metadata columns, else the ticker in upper case.\<close>

definition rows_of_mnemonic :: "dataframe \<Rightarrow> string \<Rightarrow> row list" where
  "rows_of_mnemonic raw_df mnemonic =
     filter (\<lambda>r. row_get r ''Mnemonic'' = CStr mnemonic) (df_rows raw_df)"

fun name_of_cell :: "cell \<Rightarrow> string option" where
  "name_of_cell (CStr val) = (if length val > 0 then Some val else None)"
| "name_of_cell c = None"

definition company_name_of :: "string \<Rightarrow> dataframe \<Rightarrow> string" where
  "company_name_of ticker raw_df =
     (case rows_of_mnemonic raw_df ''IQ_COMPANY_NAME'' of
        [] \<Rightarrow> upper ticker
      | r # rs \<Rightarrow>
          (case first_some (\<lambda>col. if col \<in> set metadata_columns then None
                                   else name_of_cell (row_get r col)) (df_columns raw_df) of
             Some val \<Rightarrow> val
           | None \<Rightarrow> upper ticker))"

text \<open>Lines 339 to 351: the record a year starts with.\<close>

definition identity_record :: "string \<Rightarrow> string \<Rightarrow> int \<Rightarrow> row" where
  "identity_record ticker company_name year =
     [(''Year'', CInt year), (''Date'', CStr (str_int year @ ''-12-31'')),
      (''Ticker'', CStr (upper ticker)), (''Company'', CStr company_name)]"

definition initial_record :: "string \<Rightarrow> string \<Rightarrow> int \<Rightarrow> row" where
  "initial_record ticker company_name year =
     (if upper ticker = ''AAPL''
      then (case dict_get apple_historical year of
              Some values \<Rightarrow>
                foldl (\<lambda>rec (metric, value). dict_set metric (CFloat (Fin value)) rec)
                  (identity_record ticker company_name year) values
            | None \<Rightarrow> identity_record ticker company_name year)
      else identity_record ticker company_name year)"

definition historical_years :: "int \<Rightarrow> int \<Rightarrow> int list" where
  "historical_years current_year years = py_range (current_year - years + 1) (current_year + 1)"

definition initial_financial_data :: "string \<Rightarrow> string \<Rightarrow> int list \<Rightarrow> (int, row) pydict" where
  "initial_financial_data ticker company_name hist =
     foldl (\<lambda>fd year. dict_set year (initial_record ticker company_name year) fd) [] hist"

text \<open>Lines 408 to 559: one row of a metric.  The row is skipped when its year is unset,
  zero or outside the years of \<^verbatim>\<open>financial_data\<close>, and when no value is found.\<close>

definition process_row ::
  "int \<Rightarrow> string list \<Rightarrow> string \<Rightarrow> string \<Rightarrow> string \<Rightarrow> (int, row) pydict \<Rightarrow> row \<Rightarrow> (int, row) pydict"
where
  "process_row cy cols mnemonic friendly_name value_col financial_data r =
     (case resolve_year cy cols r of
        None \<Rightarrow> financial_data
      | Some year \<Rightarrow>
          (if year = 0 then financial_data
           else (case dict_get financial_data year of
                   None \<Rightarrow> financial_data
                 | Some rec \<Rightarrow>
                     (case extract_value value_col cols r of
                        None \<Rightarrow> financial_data
                      | Some v \<Rightarrow>
                          dict_set year
                            (dict_set friendly_name (CFloat (normalize_units mnemonic v)) rec)
                            financial_data))))"

text \<open>Lines 355 to 561: one metric.  Nothing is done without rows, and nothing without a
  value column (\<^verbatim>\<open>if value_col\<close> also refuses the empty column name).\<close>

definition process_metric ::
  "int \<Rightarrow> dataframe \<Rightarrow> (int, row) pydict \<Rightarrow> string \<times> string \<Rightarrow> (int, row) pydict"
where
  "process_metric cy raw_df financial_data m =
     (case rows_of_mnemonic raw_df (fst m) of
        [] \<Rightarrow> financial_data
      | first_row # rest \<Rightarrow>
          (case find_value_col (fst m) (df_columns raw_df) first_row of
             None \<Rightarrow> financial_data
           | Some value_col \<Rightarrow>
               (if value_col = [] then financial_data
                else foldl (process_row cy (df_columns raw_df) (fst m) (snd m) value_col)
                       financial_data (first_row # rest))))"

text \<open>Lines 563 to 575.\<close>

definition result_frame :: "(int, row) pydict \<Rightarrow> dataframe" where
  "result_frame financial_data =
     fillna_NA (from_records
       (map (\<lambda>year. case dict_get financial_data year of Some rec \<Rightarrow> rec | None \<Rightarrow> [])
          (sort (dict_keys financial_data))))"

text \<open>
  The body of the \<^verbatim>\<open>try\<close> block of \<^verbatim>\<open>fetch_company_by_ticker\<close>; \<open>Inl\<close> is an exception
  that leaves the block.
\<close>

definition assemble :: "int \<Rightarrow> string \<Rightarrow> int \<Rightarrow> dataframe \<Rightarrow> dataframe" where
  "assemble cy ticker years raw_df =
     result_frame
       (foldl (process_metric cy raw_df)
          (initial_financial_data ticker (company_name_of ticker raw_df) (historical_years cy years))
          metrics)"

definition fetch_company_body :: "environment \<Rightarrow> string \<Rightarrow> int \<Rightarrow> py_error + dataframe" where
  "fetch_company_body env ticker years =
     (case ciq_fetch env (build_requests (env_year env) [upper (strip ticker)] years) of
        Inl e \<Rightarrow> Inl e
      | Inr rows \<Rightarrow>
          (if rows = [] then Inr empty_df
           else (let raw_df = parse_to_table rows in
                 if df_empty raw_df then Inr empty_df
                 else (case env_to_csv env (ticker @ ''_raw_data.csv'') of
                         Some e \<Rightarrow> Inl e
                       | None \<Rightarrow> Inr (assemble (env_year env) ticker years raw_df)))))"

text \<open>Lines 577 to 581: every exception is caught and an empty DataFrame is returned.\<close>

definition fetch_company_by_ticker :: "environment \<Rightarrow> string \<Rightarrow> int \<Rightarrow> dataframe" where
  "fetch_company_by_ticker env ticker years =
     (case fetch_company_body env ticker years of
        Inl e \<Rightarrow> empty_df
      | Inr result_df \<Rightarrow> result_df)"

text \<open>The identity fields of the record of a year.\<close>

definition identity_columns :: "string list" where
  "identity_columns = [''Year'', ''Date'', ''Ticker'', ''Company'']"

definition has_identity :: "string \<Rightarrow> string \<Rightarrow> int \<Rightarrow> row \<Rightarrow> bool" where
  "has_identity ticker company_name year rec =
     (row_get rec ''Year'' = CInt year \<and> row_get rec ''Date'' = CStr (str_int year @ ''-12-31'') \<and>
      row_get rec ''Ticker'' = CStr (upper ticker) \<and> row_get rec ''Company'' = CStr company_name)"

section \<open>Series\<close>

text \<open>
  A column of a DataFrame is the list of its cells.  Arithmetic on columns is numpy's: it
  works cell by cell on numbers, gives a float, and raises \<^verbatim>\<open>TypeError\<close> on a cell that is
  no number.  (Where pandas keeps an integer result, the result is written as the float
  of the same value.)
\<close>

fun num_of :: "cell \<Rightarrow> fval option" where
  "num_of (CInt i) = Some (Fin (of_int i))"
| "num_of (CFloat x) = Some x"
| "num_of c = None"

definition cell_arith :: "(fval \<Rightarrow> fval \<Rightarrow> fval) \<Rightarrow> cell \<Rightarrow> cell \<Rightarrow> py_error + cell" where
  "cell_arith f a b =
     (case num_of a of
        None \<Rightarrow> Inl TypeError
      | Some x \<Rightarrow> (case num_of b of None \<Rightarrow> Inl TypeError | Some y \<Rightarrow> Inr (CFloat (f x y))))"

text \<open>The results of a list of computations, or the first error.\<close>

fun all_or_error :: "(py_error + 'a) list \<Rightarrow> py_error + 'a list" where
  "all_or_error [] = Inr []"
| "all_or_error (Inl e # rs) = Inl e"
| "all_or_error (Inr v # rs) = (case all_or_error rs of Inl e \<Rightarrow> Inl e | Inr vs \<Rightarrow> Inr (v # vs))"

definition series_arith ::
  "(fval \<Rightarrow> fval \<Rightarrow> fval) \<Rightarrow> cell list \<Rightarrow> cell list \<Rightarrow> py_error + cell list" where
  "series_arith f xs ys = all_or_error (map (\<lambda>(a, b). cell_arith f a b) (zip xs ys))"

definition series_const ::
  "(fval \<Rightarrow> fval \<Rightarrow> fval) \<Rightarrow> cell list \<Rightarrow> real \<Rightarrow> py_error + cell list" where
  "series_const f xs k = all_or_error (map (\<lambda>a. cell_arith f a (CFloat (Fin k))) xs)"

text \<open>\<^verbatim>\<open>df[col]\<close> and \<^verbatim>\<open>df[col] = values\<close>: a new column is appended, an existing one is
  overwritten in its place.\<close>

definition df_col :: "dataframe \<Rightarrow> string \<Rightarrow> cell list" where
  "df_col df col = map (\<lambda>r. row_get r col) (df_rows df)"

definition df_set_col :: "dataframe \<Rightarrow> string \<Rightarrow> cell list \<Rightarrow> dataframe" where
  "df_set_col df col vals =
     \<lparr>df_columns = (if col \<in> set (df_columns df) then df_columns df else df_columns df @ [col]),
      df_rows = map (\<lambda>(r, v). dict_set col v r) (zip (df_rows df) vals)\<rparr>"

text \<open>A sequence of updates of one object: it stops at the first exception, and the object
  stays as the updates before have left it.\<close>

fun run_steps :: "('s \<Rightarrow> py_error + 's) list \<Rightarrow> 's \<Rightarrow> 's \<times> py_error option" where
  "run_steps [] s = (s, None)"
| "run_steps (f # fs) s = (case f s of Inl e \<Rightarrow> (s, Some e) | Inr s' \<Rightarrow> run_steps fs s')"

section \<open>Ratio Engine\<close>

text \<open>
  The test of lines 52 and 53, and its copies: two column names belong together when
  neither holds an underscore, or both do and their last segments are equal.  The suffix of
  the new column is the last segment of the numerator's name.
\<close>

definition same_entity :: "string \<Rightarrow> string \<Rightarrow> bool" where
  "same_entity a b =
     ((CHR ''_'' \<notin> set a \<and> CHR ''_'' \<notin> set b) \<or>
      (CHR ''_'' \<in> set a \<and> CHR ''_'' \<in> set b \<and>
       last (split_on CHR ''_'' a) = last (split_on CHR ''_'' b)))"

definition entity_suffix :: "string \<Rightarrow> string" where
  "entity_suffix a = (if CHR ''_'' \<in> set a then ''_'' @ last (split_on CHR ''_'' a) else [])"

text \<open>\<^verbatim>\<open>df[name + suffix] = df[num] / df[den] * 100\<close>, or without the factor.\<close>

definition ratio_step ::
  "string \<Rightarrow> real option \<Rightarrow> string \<times> string \<Rightarrow> dataframe \<Rightarrow> py_error + dataframe" where
  "ratio_step name scale p df =
     (if same_entity (fst p) (snd p)
      then (case series_arith f_div (df_col df (fst p)) (df_col df (snd p)) of
              Inl e \<Rightarrow> Inl e
            | Inr ratio_vals \<Rightarrow>
                (case scale of
                   None \<Rightarrow> Inr (df_set_col df (name @ entity_suffix (fst p)) ratio_vals)
                 | Some k \<Rightarrow>
                     (case series_const f_mul ratio_vals k of
                        Inl e \<Rightarrow> Inl e
                      | Inr scaled_vals \<Rightarrow> Inr (df_set_col df (name @ entity_suffix (fst p)) scaled_vals))))
      else Inr df)"

text \<open>The pairs of a loop \<^verbatim>\<open>for a in xs: for b in ys\<close>, in the order of the loop.\<close>

definition loop_pairs :: "'a list \<Rightarrow> 'b list \<Rightarrow> ('a \<times> 'b) list" where
  "loop_pairs xs ys = concat (map (\<lambda>a. map (\<lambda>b. (a, b)) ys) xs)"

definition calculate_profitability_ratios :: "dataframe \<Rightarrow> dataframe \<times> py_error option" where
  "calculate_profitability_ratios df =
     (let rev_cols = filter (contains ''TOTAL_REV'') (df_columns df);
          ni_cols = filter (\<lambda>col. contains ''NI'' col \<and> col \<noteq> ''NI_MARGIN'') (df_columns df);
          ebitda_cols = filter (\<lambda>col. contains ''EBITDA'' col \<and> col \<noteq> ''EBITDA_MARGIN'') (df_columns df);
          ebit_cols = filter (\<lambda>col. contains ''EBIT'' col \<and> col \<noteq> ''EBIT_MARGIN'') (df_columns df);
          asset_cols = filter (contains ''TOTAL_ASSETS'') (df_columns df)
      in run_steps
           (map (ratio_step ''EBITDA_MARGIN'' (Some 100)) (loop_pairs ebitda_cols rev_cols) @
            map (ratio_step ''NET_PROFIT_MARGIN'' (Some 100)) (loop_pairs ni_cols rev_cols) @
            map (ratio_step ''ROA'' (Some 100)) (loop_pairs ni_cols asset_cols) @
            map (ratio_step ''EBIT_MARGIN'' (Some 100)) (loop_pairs ebit_cols rev_cols))
           df)"

definition calculate_liquidity_ratios :: "dataframe \<Rightarrow> dataframe \<times> py_error option" where
  "calculate_liquidity_ratios df =
     (let cash_cols = filter (contains ''CASH_EQUIV'') (df_columns df);
          asset_cols = filter (contains ''TOTAL_ASSETS'') (df_columns df);
          liab_cols = filter (contains ''TOTAL_LIAB'') (df_columns df)
      in run_steps
           (map (ratio_step ''CASH_RATIO'' None) (loop_pairs cash_cols liab_cols) @
            map (ratio_step ''DEBT_TO_ASSET_RATIO'' None) (loop_pairs liab_cols asset_cols))
           df)"

definition calculate_efficiency_ratios :: "dataframe \<Rightarrow> dataframe \<times> py_error option" where
  "calculate_efficiency_ratios df = (df, None)"

text \<open>
  Lines 166 to 172.  The equity column is assets minus liabilities; the ratio is computed
  row by row, and a row whose equity is zero gets NaN.  (The special treatment that
  \<^verbatim>\<open>DataFrame.apply\<close> gives a frame without rows is not represented.)
\<close>

fun cell_ne_zero :: "cell \<Rightarrow> bool" where
  "cell_ne_zero (CInt i) = (i \<noteq> 0)"
| "cell_ne_zero (CFloat (Fin x)) = (x \<noteq> 0)"
| "cell_ne_zero c = True"

definition equity_step :: "string \<times> string \<Rightarrow> dataframe \<Rightarrow> py_error + dataframe" where
  "equity_step p df =
     (case series_arith f_sub (df_col df (snd p)) (df_col df (fst p)) of
        Inl e \<Rightarrow> Inl e
      | Inr equity \<Rightarrow> Inr (df_set_col df (''EQUITY'' @ entity_suffix (fst p)) equity))"

definition debt_to_equity_cell :: "cell \<Rightarrow> cell \<Rightarrow> py_error + cell" where
  "debt_to_equity_cell liab equity =
     (if cell_ne_zero equity then cell_arith f_div liab equity else Inr (CFloat NaN))"

definition debt_to_equity_step :: "string \<times> string \<Rightarrow> dataframe \<Rightarrow> py_error + dataframe" where
  "debt_to_equity_step p df =
     (case all_or_error
             (map (\<lambda>r. debt_to_equity_cell (row_get r (fst p))
                          (row_get r (''EQUITY'' @ entity_suffix (fst p))))
                (df_rows df)) of
        Inl e \<Rightarrow> Inl e
      | Inr ratio \<Rightarrow> Inr (df_set_col df (''DEBT_TO_EQUITY_RATIO'' @ entity_suffix (fst p)) ratio))"

definition calculate_leverage_ratios :: "dataframe \<Rightarrow> dataframe \<times> py_error option" where
  "calculate_leverage_ratios df =
     (let asset_cols = filter (contains ''TOTAL_ASSETS'') (df_columns df);
          liab_cols = filter (contains ''TOTAL_LIAB'') (df_columns df)
      in run_steps
           (concat (map (\<lambda>p. if same_entity (fst p) (snd p)
                              then [equity_step p, debt_to_equity_step p] else [])
                      (loop_pairs liab_cols asset_cols)))
           df)"

definition calculate_valuation_ratios :: "dataframe \<Rightarrow> dataframe \<times> py_error option" where
  "calculate_valuation_ratios df = (df, None)"

section \<open>Objects\<close>

text \<open>
  The DataFrames of a run are objects: a heap lists them, and an object is known by its
  position.  \<^verbatim>\<open>df.copy()\<close> and \<^verbatim>\<open>df.sort_values(...)\<close> make a new object; an assignment
  \<^verbatim>\<open>df[col] = ...\<close> changes the object that the variable \<^verbatim>\<open>df\<close> refers to.
\<close>

type_synonym heap = "dataframe list"

definition new_object :: "heap \<Rightarrow> dataframe \<Rightarrow> heap \<times> nat" where
  "new_object h df = (h @ [df], length h)"

definition df_copy :: "heap \<Rightarrow> nat \<Rightarrow> heap \<times> nat" where
  "df_copy h a = new_object h (h ! a)"

text \<open>A function that updates the object it is given and returns it.\<close>

definition in_place ::
  "(dataframe \<Rightarrow> dataframe \<times> py_error option) \<Rightarrow> heap \<Rightarrow> nat \<Rightarrow> heap \<times> py_error option" where
  "in_place f h a = (h[a := fst (f (h ! a))], snd (f (h ! a)))"

fun apply_functions ::
  "(dataframe \<Rightarrow> dataframe \<times> py_error option) list \<Rightarrow> heap \<Rightarrow> nat \<Rightarrow> heap \<times> (py_error + nat)"
where
  "apply_functions [] h df = (h, Inr df)"
| "apply_functions (func # funcs) h df =
     (case in_place func h df of
        (h', Some e) \<Rightarrow> (h', Inl e)
      | (h', None) \<Rightarrow> apply_functions funcs h' df)"

definition ratio_functions :: "(dataframe \<Rightarrow> dataframe \<times> py_error option) list" where
  "ratio_functions =
     [calculate_profitability_ratios, calculate_liquidity_ratios, calculate_efficiency_ratios,
      calculate_leverage_ratios, calculate_valuation_ratios]"

text \<open>\<^verbatim>\<open>calculate_financial_ratios(data)\<close>: the heap after the call, and the object returned
  or the exception raised.\<close>

definition calculate_financial_ratios :: "heap \<Rightarrow> nat \<Rightarrow> heap \<times> (py_error + nat)" where
  "calculate_financial_ratios h data =
     (case df_copy h data of (h', df) \<Rightarrow> apply_functions ratio_functions h' df)"

section \<open>Trend Engine\<close>

text \<open>
  \<^verbatim>\<open>df.sort_values(by)\<close>: the rows in ascending order of the column, missing values last.
  Numbers are ordered by value and strings by their characters; a column that holds both
  raises \<^verbatim>\<open>TypeError\<close>.  Rows with equal keys keep their order (pandas does not promise
  this for its default algorithm).
\<close>

fun fval_le :: "fval \<Rightarrow> fval \<Rightarrow> bool" where
  "fval_le NInf y = True"
| "fval_le x PInf = True"
| "fval_le (Fin x) (Fin y) = (x \<le> y)"
| "fval_le x y = False"

fun str_le :: "string \<Rightarrow> string \<Rightarrow> bool" where
  "str_le [] t = True"
| "str_le (a # s) [] = False"
| "str_le (a # s) (b # t) =
     ((of_char a :: nat) < of_char b \<or> (a = b \<and> str_le s t))"

fun present_le :: "cell \<Rightarrow> cell \<Rightarrow> bool" where
  "present_le (CStr s) (CStr t) = str_le s t"
| "present_le a b = (case (num_of a, num_of b) of (Some x, Some y) \<Rightarrow> fval_le x y | _ \<Rightarrow> True)"

definition key_le :: "cell \<Rightarrow> cell \<Rightarrow> bool" where
  "key_le a b = (if isna b then True else if isna a then False else present_le a b)"

fun insert_row :: "(row \<Rightarrow> cell) \<Rightarrow> row \<Rightarrow> row list \<Rightarrow> row list" where
  "insert_row key r [] = [r]"
| "insert_row key r (x # xs) =
     (if key_le (key r) (key x) then r # x # xs else x # insert_row key r xs)"

definition sort_rows :: "(row \<Rightarrow> cell) \<Rightarrow> row list \<Rightarrow> row list" where
  "sort_rows key rs = foldr (insert_row key) rs []"

definition sort_values :: "string \<Rightarrow> dataframe \<Rightarrow> py_error + dataframe" where
  "sort_values by df =
     (let present = filter (\<lambda>c. \<not> isna c) (df_col df by) in
      if (\<exists>c \<in> set present. is_str c) \<and> (\<exists>c \<in> set present. is_number c)
      then Inl TypeError
      else Inr (df\<lparr>df_rows := sort_rows (\<lambda>r. row_get r by) (df_rows df)\<rparr>))"

text \<open>
  \<^verbatim>\<open>series.pct_change()\<close>: the series divided by itself shifted by one position, minus
  one.  Up to pandas 2 the missing values are first replaced by the last value before
  them, from pandas 3 on they are not: \<open>pad\<close> tells which.
\<close>

fun ffill :: "cell \<Rightarrow> cell list \<Rightarrow> cell list" where
  "ffill prev [] = []"
| "ffill prev (x # xs) = (if isna x then prev # ffill prev xs else x # ffill x xs)"

definition shift1 :: "cell list \<Rightarrow> cell list" where
  "shift1 xs = (if xs = [] then [] else CFloat NaN # butlast xs)"

definition pct_change :: "bool \<Rightarrow> cell list \<Rightarrow> py_error + cell list" where
  "pct_change pad xs =
     (let data = (if pad then ffill (CFloat NaN) xs else xs) in
      case series_arith f_div data (shift1 data) of
        Inl e \<Rightarrow> Inl e
      | Inr ratios \<Rightarrow> series_const f_sub ratios 1)"

text \<open>The values of a column that are present, and \<^verbatim>\<open>mean\<close>, \<^verbatim>\<open>min\<close> and \<^verbatim>\<open>max\<close>, which
  skip the missing values and give NaN when nothing is left.  They are applied to columns
  of numbers.\<close>

definition present_values :: "cell list \<Rightarrow> fval list" where
  "present_values xs = filter (\<lambda>x. x \<noteq> NaN) (List.map_filter num_of xs)"

definition f_sum :: "fval list \<Rightarrow> fval" where
  "f_sum vs = foldl f_add (Fin 0) vs"

definition f_mean :: "fval list \<Rightarrow> fval" where
  "f_mean vs = (if vs = [] then NaN else f_div (f_sum vs) (Fin (real (length vs))))"

definition series_mean :: "cell list \<Rightarrow> fval" where
  "series_mean xs = f_mean (present_values xs)"

definition series_min :: "cell list \<Rightarrow> fval" where
  "series_min xs =
     (case present_values xs of
        [] \<Rightarrow> NaN
      | v # vs \<Rightarrow> foldl (\<lambda>m x. if fval_le x m then x else m) v vs)"

definition series_max :: "cell list \<Rightarrow> fval" where
  "series_max xs =
     (case present_values xs of
        [] \<Rightarrow> NaN
      | v # vs \<Rightarrow> foldl (\<lambda>m x. if fval_le m x then x else m) v vs)"

text \<open>
  \<^verbatim>\<open>series.rolling(window=k).mean()\<close>: at a position with fewer than \<open>k\<close> values up to it,
  or with a missing value among the last \<open>k\<close>, the result is NaN; elsewhere it is the mean
  of the last \<open>k\<close> values.  A negative window raises \<^verbatim>\<open>ValueError\<close>, a column that holds
  something else than numbers raises as well.  The mean of a window is its sum divided by
  \<open>k\<close>.
\<close>

definition window_mean :: "nat \<Rightarrow> fval list \<Rightarrow> fval" where
  "window_mean k w = (if NaN \<in> set w then NaN else f_div (f_sum w) (Fin (real k)))"

definition rolling_mean :: "int \<Rightarrow> cell list \<Rightarrow> py_error + cell list" where
  "rolling_mean window xs =
     (if window < 0 then Inl ValueError
      else if \<exists>c \<in> set xs. num_of c = None then Inl TypeError
      else Inr (map (\<lambda>i. if i + 1 < nat window then CFloat NaN
                          else CFloat (window_mean (nat window)
                                 (List.map_filter num_of (take (nat window) (drop (i + 1 - nat window) xs)))))
                  [0 ..< length xs]))"

text \<open>\<^verbatim>\<open>series.iloc[-k:]\<close>, by Python's rule for slices: the last \<open>k\<close> cells for a positive
  \<open>k\<close>, everything for \<open>k = 0\<close>, and everything but the first \<open>-k\<close> cells for a negative
  \<open>k\<close>.\<close>

definition iloc_from_minus :: "int \<Rightarrow> 'a list \<Rightarrow> 'a list" where
  "iloc_from_minus k xs = (if k > 0 then drop (length xs - nat k) xs else drop (nat (- k)) xs)"

text \<open>
  The power \<^verbatim>\<open>x ** y\<close> of numpy for an exponent that is finite and not negative, which is
  all that line 228 computes: the exponent is the inverse of a positive number.
\<close>

definition is_integer :: "real \<Rightarrow> bool" where
  "is_integer y = (y = of_int (floor y))"

fun f_pow :: "fval \<Rightarrow> fval \<Rightarrow> fval" where
  "f_pow x (Fin y) =
     (if y = 0 then Fin 1
      else if y < 0 then NaN
      else (case x of
              NaN \<Rightarrow> NaN
            | PInf \<Rightarrow> PInf
            | NInf \<Rightarrow> (if is_integer y \<and> odd (floor y) then NInf else PInf)
            | Fin b \<Rightarrow> (if b \<ge> 0 then Fin (b powr y)
                        else if is_integer y then Fin (b ^ nat (floor y))
                        else NaN)))"
| "f_pow x y = NaN"

text \<open>Lines 217 to 235: the compound annual growth rate, in percent.\<close>

definition first_valid_index :: "cell list \<Rightarrow> nat option" where
  "first_valid_index xs = find (\<lambda>i. \<not> isna (xs ! i)) [0 ..< length xs]"

definition last_valid_index :: "cell list \<Rightarrow> nat option" where
  "last_valid_index xs = find (\<lambda>i. \<not> isna (xs ! i)) (rev [0 ..< length xs])"

definition cagr_of :: "cell \<Rightarrow> cell \<Rightarrow> fval \<Rightarrow> py_error + fval" where
  "cagr_of start_val end_val n_years =
     (if f_gt n_years 0
      then (case num_of start_val of
              None \<Rightarrow> Inl TypeError
            | Some s \<Rightarrow>
                (if f_gt s 0
                 then (case num_of end_val of
                         None \<Rightarrow> Inl TypeError
                       | Some e \<Rightarrow>
                           Inr (f_mul (f_sub (f_pow (f_div e s) (f_div (Fin 1) n_years)) (Fin 1))
                                  (Fin 100)))
                 else Inr NaN))
      else Inr NaN)"

definition cagr_percent :: "dataframe \<Rightarrow> string \<Rightarrow> py_error + fval" where
  "cagr_percent df metric =
     (if length (df_rows df) \<ge> 2
      then (case first_valid_index (df_col df metric) of
              None \<Rightarrow> Inr NaN
            | Some i \<Rightarrow>
                (case last_valid_index (df_col df metric) of
                   None \<Rightarrow> Inr NaN
                 | Some j \<Rightarrow>
                     (case cell_arith f_sub (df_col df ''Year'' ! j) (df_col df ''Year'' ! i) of
                        Inl e \<Rightarrow> Inl e
                      | Inr n_years \<Rightarrow>
                          cagr_of (df_col df metric ! i) (df_col df metric ! j)
                            (float_of_number n_years))))
      else Inr NaN)"

text \<open>The entry of \<^verbatim>\<open>results\<close> for one metric.\<close>

record trend_result =
  latest :: cell
  avg :: fval
  minimum :: fval
  maximum :: fval
  cagr :: fval
  recent_trend :: fval

text \<open>Lines 247 and 248 on their own: the recent trend of a frame with \<open>n\<close> rows.\<close>

definition recent_trend_of :: "int \<Rightarrow> cell list \<Rightarrow> fval" where
  "recent_trend_of periods yoy =
     (if int (length yoy) \<ge> periods then series_mean (iloc_from_minus periods yoy) else NaN)"

text \<open>
  Lines 213 to 249: one metric.  The frame is the sorted copy; it is returned as the
  assignments have left it, with the entry of \<^verbatim>\<open>results\<close> or the exception raised.
\<close>

definition moving_average_step :: "int \<Rightarrow> string \<Rightarrow> dataframe \<Rightarrow> py_error + dataframe" where
  "moving_average_step periods col df =
     (if int (length (df_rows df)) \<ge> periods
      then (case rolling_mean periods (df_col df col) of
              Inl e \<Rightarrow> Inl e
            | Inr ma \<Rightarrow> Inr (df_set_col df (col @ ''_MA'' @ str_int periods) ma))
      else Inr df)"

definition trend_metric ::
  "bool \<Rightarrow> int \<Rightarrow> string \<Rightarrow> dataframe \<Rightarrow> dataframe \<times> (py_error + trend_result)" where
  "trend_metric pad periods metric df =
     (case pct_change pad (df_col df metric) of
        Inl e \<Rightarrow> (df, Inl e)
      | Inr change \<Rightarrow>
          (case series_const f_mul change 100 of
             Inl e \<Rightarrow> (df, Inl e)
           | Inr yoy \<Rightarrow>
               (let df1 = df_set_col df (metric @ ''_YOY'') yoy in
                case cagr_percent df1 metric of
                  Inl e \<Rightarrow> (df1, Inl e)
                | Inr cagr_pct \<Rightarrow>
                    (case moving_average_step periods metric df1 of
                       Inl e \<Rightarrow> (df1, Inl e)
                     | Inr df2 \<Rightarrow>
                         (df2, Inr \<lparr>latest = last (df_col df2 metric),
                                    avg = series_mean (df_col df2 metric),
                                    minimum = series_min (df_col df2 metric),
                                    maximum = series_max (df_col df2 metric),
                                    cagr = cagr_pct,
                                    recent_trend =
                                      recent_trend_of periods (df_col df2 (metric @ ''_YOY''))\<rparr>)))))"

fun trend_loop ::
  "bool \<Rightarrow> int \<Rightarrow> string list \<Rightarrow> dataframe \<Rightarrow> (string, trend_result) pydict \<Rightarrow>
     dataframe \<times> (py_error + (string, trend_result) pydict)"
where
  "trend_loop pad periods [] df results = (df, Inr results)"
| "trend_loop pad periods (metric # ms) df results =
     (if metric \<notin> set (df_columns df) then trend_loop pad periods ms df results
      else (case trend_metric pad periods metric df of
              (df', Inl e) \<Rightarrow> (df', Inl e)
            | (df', Inr res) \<Rightarrow> trend_loop pad periods ms df' (dict_set metric res results)))"

text \<open>\<^verbatim>\<open>calculate_trend_analysis(df, metrics, periods)\<close> on the object \<open>a\<close>: the heap after
  the call, and the dictionary returned or the exception raised.\<close>

definition calculate_trend_analysis ::
  "bool \<Rightarrow> heap \<Rightarrow> nat \<Rightarrow> string list \<Rightarrow> int \<Rightarrow> heap \<times> (py_error + (string, trend_result) pydict)"
where
  "calculate_trend_analysis pad h a ms periods =
     (if ''Year'' \<notin> set (df_columns (h ! a)) \<or> df_empty (h ! a) then (h, Inr [])
      else (case sort_values ''Year'' (h ! a) of
              Inl e \<Rightarrow> (h, Inl e)
            | Inr sorted_df \<Rightarrow>
                (case new_object h sorted_df of
                   (h', df) \<Rightarrow>
                     (case trend_loop pad periods ms (h' ! df) [] of
                        (df', outcome) \<Rightarrow> (h'[df := df'], outcome)))))"

text \<open>
  \<^verbatim>\<open>add_moving_averages(df, columns, periods)\<close>.  The test that a column is in the frame
  is made in the code once for a column, before its loop over the periods; here it is
  made at every period, which is the same, since the assignments of the loop only add
  columns.
\<close>

definition moving_average_steps ::
  "string list \<Rightarrow> int list \<Rightarrow> (dataframe \<Rightarrow> py_error + dataframe) list" where
  "moving_average_steps columns periods =
     map (\<lambda>p df. if fst p \<in> set (df_columns df) then moving_average_step (snd p) (fst p) df
                  else Inr df)
       (loop_pairs columns periods)"

definition add_moving_averages ::
  "heap \<Rightarrow> nat \<Rightarrow> string list \<Rightarrow> int list \<Rightarrow> heap \<times> (py_error + nat)" where
  "add_moving_averages h a columns periods =
     (case df_copy h a of
        (h1, result_df) \<Rightarrow>
          (case (if ''Year'' \<in> set (df_columns (h1 ! result_df))
                 then (case sort_values ''Year'' (h1 ! result_df) of
                         Inl e \<Rightarrow> Inl e
                       | Inr sorted_df \<Rightarrow> Inr (new_object h1 sorted_df))
                 else Inr (h1, result_df)) of
             Inl e \<Rightarrow> (h1, Inl e)
           | Inr (h2, sorted_result) \<Rightarrow>
               (case in_place (run_steps (moving_average_steps columns periods)) h2 sorted_result of
                  (h3, Some e) \<Rightarrow> (h3, Inl e)
                | (h3, None) \<Rightarrow> (h3, Inr sorted_result))))"

text \<open>
  The words of the specification, for comparison with the code: the year-over-year growth
  of a series of values, in percent, and the arithmetic mean of the last \<open>j\<close> values of a
  list.
\<close>

definition yoy_growth :: "real list \<Rightarrow> real list" where
  "yoy_growth vs = map (\<lambda>(previous, current). (current / previous - 1) * 100) (zip vs (tl vs))"

definition mean_of_last :: "nat \<Rightarrow> real list \<Rightarrow> real" where
  "mean_of_last j gs = sum_list (drop (length gs - j) gs) / real j"

section \<open>Example runs\<close>

text \<open>
  Environments of the year 2024 on which the functions are evaluated below.  In the first
  the credentials are not set; in the second every POST fails; in the third the service
  answers with an empty list of replies; in the fourth it answers every request, and only
  the request for the company name has a value row.
\<close>

definition credentials :: "string \<Rightarrow> string option" where
  "credentials key =
     (if key = ''CIQ_USER'' then Some ''analyst''
      else if key = ''CIQ_PASS'' then Some ''secret''
      else None)"

definition env_no_credentials :: environment where
  "env_no_credentials =
     \<lparr>env_year = 2024, env_getenv = (\<lambda>key. None), env_token = (\<lambda>user pwd. Inr ''token''),
      env_post = (\<lambda>token batch. Inr []), env_to_csv = (\<lambda>path. None)\<rparr>"

definition env_transport_error :: environment where
  "env_transport_error =
     \<lparr>env_year = 2024, env_getenv = credentials, env_token = (\<lambda>user pwd. Inr ''token''),
      env_post = (\<lambda>token batch. Inl HTTPError), env_to_csv = (\<lambda>path. None)\<rparr>"

definition env_no_data :: environment where
  "env_no_data =
     \<lparr>env_year = 2024, env_getenv = credentials, env_token = (\<lambda>user pwd. Inr ''token''),
      env_post = (\<lambda>token batch. Inr []), env_to_csv = (\<lambda>path. None)\<rparr>"

definition name_only_reply :: "string \<Rightarrow> request \<Rightarrow> reply" where
  "name_only_reply name req =
     \<lparr>rep_identifier = req_identifier req, rep_mnemonic = req_mnemonic req,
      rep_headers = [req_mnemonic req],
      rep_periodtype = (case req_periodType req of Some pt \<Rightarrow> pt | None \<Rightarrow> []),
      rep_rows = (if req_mnemonic req = ''IQ_COMPANY_NAME'' then [[CStr name]] else [])\<rparr>"

definition env_name_only :: "string \<Rightarrow> environment" where
  "env_name_only name =
     \<lparr>env_year = 2024, env_getenv = credentials, env_token = (\<lambda>user pwd. Inr ''token''),
      env_post = (\<lambda>token batch. Inr (map (name_only_reply name) batch)),
      env_to_csv = (\<lambda>path. None)\<rparr>"

text \<open>A comparison frame of one year in which the revenue of the entity is zero, and a
  frame of two years of revenue.\<close>

definition zero_revenue_frame :: dataframe where
  "zero_revenue_frame =
     \<lparr>df_columns = [''Year'', ''EBITDA_AAPL'', ''TOTAL_REV_AAPL''],
      df_rows = [[(''Year'', CInt 2024), (''EBITDA_AAPL'', CFloat (Fin 5)),
                  (''TOTAL_REV_AAPL'', CFloat (Fin 0))]]\<rparr>"

definition two_year_frame :: dataframe where
  "two_year_frame =
     \<lparr>df_columns = [''Year'', ''Revenue''],
      df_rows = [[(''Year'', CInt 2023), (''Revenue'', CFloat (Fin 100))],
                 [(''Year'', CInt 2024), (''Revenue'', CFloat (Fin 110))]]\<rparr>"

definition zero_equity_frame :: dataframe where
  "zero_equity_frame =
     \<lparr>df_columns = [''Year'', ''TOTAL_LIAB_AAPL'', ''TOTAL_ASSETS_AAPL''],
      df_rows = [[(''Year'', CInt 2024), (''TOTAL_LIAB_AAPL'', CFloat (Fin 5)),
                  (''TOTAL_ASSETS_AAPL'', CFloat (Fin 5))]]\<rparr>"

section \<open>Properties of the string helpers\<close>

lemma digits_of_small: "n < 10 \<Longrightarrow> digits_of n = [digit_char n]"
  by (subst digits_of.simps) simp

lemma digits_of_large: "\<not> n < 10 \<Longrightarrow> digits_of n = digits_of (n div 10) @ [digit_char (n mod 10)]"
  by (subst digits_of.simps) simp










lemma resolve_year_of_period:
  "resolve_period cy (row_get r ''Period'') = Some y \<Longrightarrow> y \<noteq> 0 \<Longrightarrow> resolve_year cy cols r = Some y"
  by (simp add: resolve_year_def)

section \<open>Period Resolver: the rules on the token\<close>




section \<open>Period Resolver: the fallback scan\<close>




section \<open>Unit Normalizer: market capitalisation\<close>

text \<open>What the normalizer does with a finite market capitalisation: the branch for values
  below 100 lies under the test \<^verbatim>\<open>value > 1000\<close> and is never taken.\<close>

lemma normalize_units_market_cap:
  "normalize_units ''IQ_MARKETCAP'' (Fin v) =
     (if v > 1000000 then Fin (v * 1000)
      else if v < - 1000000 then Fin (v / 1000000)
      else Fin v)"
  by (auto simp: normalize_units_def)


section \<open>Failures of a run\<close>

lemma post_all_no_replies:
  "(\<And>b. env_post env token b = Inr []) \<Longrightarrow> post_all env token bs = Inr []"
  by (induction bs) auto

lemma ciq_fetch_missing_credential:
  "need env ''CIQ_USER'' = Inl e \<or> need env ''CIQ_PASS'' = Inl e \<Longrightarrow> \<exists>e'. ciq_fetch env reqs = Inl e'"
  by (auto simp: ciq_fetch_def split: sum.splits)

lemma parse_to_table_Nil: "parse_to_table [] = empty_df"
  by (simp add: parse_to_table_def flat_records_def from_records_def unique_in_order_def empty_df_def)

lemma ciq_fetch_no_credentials: "ciq_fetch env_no_credentials reqs = Inl ValueError"
  by (simp add: ciq_fetch_def need_def env_no_credentials_def)

lemma need_credentials:
  "need env_no_data ''CIQ_USER'' = Inr ''analyst''" "need env_no_data ''CIQ_PASS'' = Inr ''secret''"
  "need env_transport_error ''CIQ_USER'' = Inr ''analyst''" "need env_transport_error ''CIQ_PASS'' = Inr ''secret''"
  by (simp_all add: need_def env_no_data_def env_transport_error_def credentials_def)

lemma ciq_fetch_no_data: "ciq_fetch env_no_data reqs = Inr []"
proof -
  have "post_all env_no_data ''token'' bs = Inr []" for bs
    by (rule post_all_no_replies) (simp add: env_no_data_def)
  then show ?thesis
    by (simp add: ciq_fetch_def need_credentials) (simp add: env_no_data_def)
qed

text \<open>
  Claim C3, as the code has it.  When \<^verbatim>\<open>ciq_fetch\<close> raises (a missing credential raises
  \<^verbatim>\<open>ValueError\<close> in \<^verbatim>\<open>_need\<close>, a transport error raises in \<^verbatim>\<open>ciq_token\<close> or after a POST),
  the \<^verbatim>\<open>except\<close> clauses of \<^verbatim>\<open>fetch_company_by_ticker\<close> and \<^verbatim>\<open>fetch_data_from_api\<close> return
  the empty DataFrame, which is also what both return when the service answered with no
  reply at all.
\<close>

theorem failed_run_gives_empty_dataset:
  "(ciq_fetch env (build_requests (env_year env) [upper (strip ticker)] years) = Inl e \<or>
    ciq_fetch env (build_requests (env_year env) [upper (strip ticker)] years) = Inr []
      \<longrightarrow> fetch_company_by_ticker env ticker years = empty_df) \<and>
   (ciq_fetch env (build_requests (env_year env) company_ids years) = Inl e \<or>
    ciq_fetch env (build_requests (env_year env) company_ids years) = Inr []
      \<longrightarrow> fetch_data_from_api env company_ids years = empty_df)"
  by (auto simp: fetch_company_by_ticker_def fetch_company_body_def fetch_data_from_api_def
        parse_to_table_Nil)

theorem failed_run_gives_empty_dataset_witness:
  "fetch_company_by_ticker env_no_credentials ''MSFT'' 3 = empty_df \<and>
   fetch_data_from_api env_no_credentials [''MSFT''] 3 = empty_df"
  using failed_run_gives_empty_dataset[of env_no_credentials "''MSFT''" 3 ValueError "[''MSFT'']"]
    ciq_fetch_no_credentials
  by simp

text \<open>
  The claim as the specification states it fails: a run without credentials and a run in
  which the service returned no data give the same value.
\<close>

theorem failed_run_same_as_no_data:
  "ciq_fetch env_no_credentials (build_requests 2024 [''MSFT''] 3) = Inl ValueError \<and>
   ciq_fetch env_no_data (build_requests 2024 [''MSFT''] 3) = Inr [] \<and>
   fetch_company_by_ticker env_no_credentials ''MSFT'' 3 = fetch_company_by_ticker env_no_data ''MSFT'' 3 \<and>
   fetch_data_from_api env_no_credentials [''MSFT''] 3 = fetch_data_from_api env_no_data [''MSFT''] 3"
  by (simp add: ciq_fetch_no_credentials ciq_fetch_no_data fetch_company_by_ticker_def
      fetch_company_body_def fetch_data_from_api_def parse_to_table_Nil)

section \<open>Canonical Assembler: the years of the result\<close>

lemma dict_set_keys:
  "dict_keys (dict_set k v d) = (if k \<in> set (dict_keys d) then dict_keys d else dict_keys d @ [k])"
  by (induction d) (force simp: dict_keys_def)+

lemma dict_get_set: "dict_get (dict_set k v d) k' = (if k' = k then Some v else dict_get d k')"
  by (induction d) (auto simp: dict_get_def)

lemma dict_get_Some_keys: "dict_get d k = Some v \<Longrightarrow> k \<in> set (dict_keys d)"
  by (auto simp: dict_get_def dict_keys_def dest: map_of_SomeD intro: rev_image_eqI)

lemma dict_get_None_keys: "dict_get d k = None \<longleftrightarrow> k \<notin> set (dict_keys d)"
  by (simp add: dict_get_def dict_keys_def map_of_eq_None_iff)

lemma foldl_invariant:
  "P s \<Longrightarrow> (\<And>s x. x \<in> set xs \<Longrightarrow> P s \<Longrightarrow> P (f s x)) \<Longrightarrow> P (foldl f s xs)"
  by (induction xs arbitrary: s) auto

lemma initial_keys:
  "distinct hist \<Longrightarrow> set hist \<inter> set (dict_keys acc) = {} \<Longrightarrow>
   dict_keys (foldl (\<lambda>fd y. dict_set y (f y) fd) acc hist) = dict_keys acc @ hist"
  by (induction hist arbitrary: acc) (auto simp: dict_set_keys)

lemma initial_get:
  "dict_get (foldl (\<lambda>fd y. dict_set y (f y) fd) acc hist) y =
     (if y \<in> set hist then Some (f y) else dict_get acc y)"
  by (induction hist arbitrary: acc) (auto simp: dict_get_set)

lemma historical_years_upto: "historical_years cy years = [cy - years + 1 .. cy]"
  by (simp add: historical_years_def py_range_def)

lemma initial_financial_data_keys:
  "dict_keys (initial_financial_data ticker name (historical_years cy years)) = [cy - years + 1 .. cy]"
  using initial_keys[of "[cy - years + 1 .. cy]" "[]" "initial_record ticker name"]
  by (simp add: initial_financial_data_def historical_years_upto dict_keys_def)

lemma initial_financial_data_get:
  "dict_get (initial_financial_data ticker name hist) y =
     (if y \<in> set hist then Some (initial_record ticker name y) else None)"
proof -
  have "dict_get ([] :: (int, row) pydict) y = None" by (simp add: dict_get_def)
  then show ?thesis by (simp add: initial_financial_data_def initial_get)
qed

lemma process_row_keys:
  "dict_keys (process_row cy cols mn fn vc fd r) = dict_keys fd"
  by (auto simp: process_row_def dict_set_keys split: option.splits dest: dict_get_Some_keys)

lemma process_metric_keys: "dict_keys (process_metric cy raw_df fd m) = dict_keys fd"
proof -
  have "dict_keys (foldl (process_row cy cols mn fn vc) fd rs) = dict_keys fd" for cols mn fn vc rs
    by (rule foldl_invariant[where P="\<lambda>s. dict_keys s = dict_keys fd"]) (simp_all add: process_row_keys)
  then show ?thesis
    by (simp add: process_metric_def del: foldl_Cons split: list.splits option.splits)
qed

lemma process_metrics_keys: "dict_keys (foldl (process_metric cy raw_df) fd ms) = dict_keys fd"
  by (rule foldl_invariant[where P="\<lambda>s. dict_keys s = dict_keys fd"]) (simp_all add: process_metric_keys)

lemma row_get_set: "row_get (dict_set k v r) c = (if c = k then v else row_get r c)"
  by (simp add: row_get_def dict_get_set)

lemma row_get_keys: "c \<notin> set (dict_keys r) \<Longrightarrow> row_get r c = CFloat NaN"
  by (simp add: row_get_def dict_get_None_keys[symmetric])

lemma row_get_tabulate:
  "row_get (map (\<lambda>c. (c, f c)) cols) c = (if c \<in> set cols then f c else CFloat NaN)"
  by (induction cols) (auto simp: row_get_def dict_get_def)

lemma set_unique_in_order: "set (unique_in_order xs) = set xs"
proof -
  have "set (foldl (\<lambda>acc x. if x \<in> set acc then acc else acc @ [x]) acc xs) = set acc \<union> set xs" for acc
    by (induction xs arbitrary: acc) auto
  then show ?thesis by (simp add: unique_in_order_def)
qed

lemma result_frame_rows:
  "df_rows (fillna_NA (from_records recs)) =
     map (\<lambda>r. map (\<lambda>c. (c, if isna (row_get r c) then CFloat NaN else row_get r c))
                 (unique_in_order (concat (map dict_keys recs)))) recs"
  by (simp add: fillna_NA_def from_records_def Let_def comp_def)

lemma result_frame_columns:
  "df_columns (fillna_NA (from_records recs)) = unique_in_order (concat (map dict_keys recs))"
  by (simp add: fillna_NA_def from_records_def Let_def)

text \<open>A cell that is present in a record is found unchanged in its row of the result; a
  cell that is missing is NaN there.\<close>

lemma result_cell:
  assumes "r \<in> set recs"
  shows "row_get (map (\<lambda>c. (c, if isna (row_get r c) then CFloat NaN else row_get r c))
                   (unique_in_order (concat (map dict_keys recs)))) c =
         (if isna (row_get r c) then CFloat NaN else row_get r c)"
proof (cases "c \<in> set (dict_keys r)")
  case True
  then have "c \<in> set (unique_in_order (concat (map dict_keys recs)))"
    using assms by (auto simp: set_unique_in_order)
  then show ?thesis by (simp add: row_get_tabulate)
next
  case False
  then show ?thesis by (simp add: row_get_tabulate row_get_keys)
qed

lemma process_row_other_year:
  "(resolve_year cy cols r = Some y \<longrightarrow> extract_value vc cols r = None) \<Longrightarrow>
   dict_get (process_row cy cols mn fn vc fd r) y = dict_get fd y"
  by (auto simp: process_row_def dict_get_set split: option.splits)

lemma process_row_identity:
  assumes "fn \<notin> set identity_columns"
    and "\<forall>y rec. dict_get fd y = Some rec \<longrightarrow> has_identity t n y rec"
  shows "\<forall>y rec. dict_get (process_row cy cols mn fn vc fd r) y = Some rec \<longrightarrow> has_identity t n y rec"
  using assms
  by (auto simp: process_row_def dict_get_set has_identity_def row_get_set identity_columns_def
      split: option.splits if_splits)

lemma metrics_friendly_names: "m \<in> set metrics \<Longrightarrow> snd m \<notin> set identity_columns"
  by (auto simp: metrics_def identity_columns_def)

lemma process_metric_identity:
  assumes "snd m \<notin> set identity_columns"
    and "\<forall>y rec. dict_get fd y = Some rec \<longrightarrow> has_identity t n y rec"
  shows "\<forall>y rec. dict_get (process_metric cy raw_df fd m) y = Some rec \<longrightarrow> has_identity t n y rec"
proof -
  have "\<forall>y rec. dict_get (foldl (process_row cy cols mn (snd m) vc) fd rs) y = Some rec
          \<longrightarrow> has_identity t n y rec" for cols mn vc rs
    by (rule foldl_invariant[where P="\<lambda>s. \<forall>y rec. dict_get s y = Some rec \<longrightarrow> has_identity t n y rec"])
       (use assms process_row_identity in blast)+
  then show ?thesis
    using assms(2)
    by (simp add: process_metric_def del: foldl_Cons split: list.splits option.splits)
qed

lemma process_metrics_identity:
  assumes "\<forall>y rec. dict_get fd y = Some rec \<longrightarrow> has_identity t n y rec"
  shows "\<forall>y rec. dict_get (foldl (process_metric cy raw_df) fd metrics) y = Some rec
           \<longrightarrow> has_identity t n y rec"
  by (rule foldl_invariant[where P="\<lambda>s. \<forall>y rec. dict_get s y = Some rec \<longrightarrow> has_identity t n y rec"])
     (use assms metrics_friendly_names process_metric_identity in blast)+

lemma process_metric_other_year:
  assumes "\<forall>r \<in> set (df_rows raw_df). resolve_year cy (df_columns raw_df) r = Some y \<longrightarrow>
             (\<forall>vc. extract_value vc (df_columns raw_df) r = None)"
  shows "dict_get (process_metric cy raw_df fd m) y = dict_get fd y"
proof -
  have "dict_get (foldl (process_row cy (df_columns raw_df) mn fn vc) fd rs) y = dict_get fd y"
    if "set rs \<subseteq> set (df_rows raw_df)" for mn fn vc rs
    by (rule foldl_invariant[where P="\<lambda>s. dict_get s y = dict_get fd y"])
       (use assms that process_row_other_year in auto)
  moreover have "set (rows_of_mnemonic raw_df (fst m)) \<subseteq> set (df_rows raw_df)"
    by (auto simp: rows_of_mnemonic_def)
  ultimately show ?thesis
    by (auto simp add: process_metric_def simp del: foldl_Cons split: list.splits option.splits)
qed

lemma process_metrics_other_year:
  assumes "\<forall>r \<in> set (df_rows raw_df). resolve_year cy (df_columns raw_df) r = Some y \<longrightarrow>
             (\<forall>vc. extract_value vc (df_columns raw_df) r = None)"
  shows "dict_get (foldl (process_metric cy raw_df) fd ms) y = dict_get fd y"
  by (rule foldl_invariant[where P="\<lambda>s. dict_get s y = dict_get fd y"])
     (use assms process_metric_other_year in auto)

lemma identity_record_has_identity: "has_identity t n y (identity_record t n y)"
  by (simp add: has_identity_def identity_record_def row_get_def dict_get_def)


lemma row_get_prepopulated:
  "c \<notin> fst ` set vs \<Longrightarrow>
   row_get (foldl (\<lambda>rec (metric, value). dict_set metric (g value) rec) r vs) c = row_get r c"
  by (induction vs arbitrary: r) (auto simp: row_get_set)

lemma apple_historical_names:
  "dict_get apple_historical y = Some vs \<Longrightarrow> c \<in> set identity_columns \<Longrightarrow> c \<notin> fst ` set vs"
  by (auto simp: apple_historical_def dict_get_def identity_columns_def split: if_splits)

lemma initial_record_has_identity: "has_identity t n y (initial_record t n y)"
proof -
  have "has_identity t n y (foldl (\<lambda>rec (metric, value). dict_set metric (CFloat (Fin value)) rec)
          (identity_record t n y) vs)"
    if "dict_get apple_historical y = Some vs" for vs
    using identity_record_has_identity[of t n y] apple_historical_names[OF that]
    by (simp add: has_identity_def row_get_prepopulated identity_columns_def)
  then show ?thesis
    by (auto simp: initial_record_def identity_record_has_identity split: option.splits)
qed

lemma dict_set_keys_set: "set (dict_keys (dict_set k v d)) = insert k (set (dict_keys d))"
  by (auto simp: dict_set_keys)

lemma dict_update_keys: "set (dict_keys (dict_update d other)) = set (dict_keys d) \<union> fst ` set other"
proof -
  have "set (dict_keys (foldl (\<lambda>acc (k, v). dict_set k v acc) d other)) = set (dict_keys d) \<union> fst ` set other"
    by (induction other arbitrary: d) (auto simp: dict_set_keys_set)
  then show ?thesis by (simp add: dict_update_def)
qed

lemma flat_record_keys: "''Mnemonic'' \<in> set (dict_keys (flat_record rep entry))"
  by (simp add: flat_record_def dict_update_keys) (simp add: dict_keys_def)

lemma parse_to_table_not_empty:
  assumes "flat_records rows \<noteq> []"
  shows "\<not> df_empty (parse_to_table rows)"
proof -
  obtain r rs where fr: "flat_records rows = r # rs" using assms by (cases "flat_records rows") auto
  then have "r \<in> set (flat_records rows)" by simp
  then obtain rep entry where "r = flat_record rep entry" by (auto simp: flat_records_def)
  then have "''Mnemonic'' \<in> set (dict_keys r)" by (simp add: flat_record_keys)
  then have "''Mnemonic'' \<in> set (unique_in_order (concat (map dict_keys (flat_records rows))))"
    using fr by (simp add: set_unique_in_order)
  then have "df_columns (parse_to_table rows) \<noteq> []"
    by (auto simp: parse_to_table_def from_records_def Let_def)
  moreover have "df_rows (parse_to_table rows) \<noteq> []"
    using fr by (simp add: parse_to_table_def from_records_def Let_def)
  ultimately show ?thesis by (simp add: df_empty_def)
qed

lemma flat_records_Nil: "flat_records [] = []"
  by (simp add: flat_records_def)

lemma fetch_company_success:
  assumes "ciq_fetch env (build_requests (env_year env) [upper (strip ticker)] years) = Inr rows"
    and "flat_records rows \<noteq> []"
    and "env_to_csv env (ticker @ ''_raw_data.csv'') = None"
  shows "fetch_company_by_ticker env ticker years =
           assemble (env_year env) ticker years (parse_to_table rows)"
proof -
  have "rows \<noteq> []" using assms(2) flat_records_Nil by auto
  then show ?thesis
    using assms parse_to_table_not_empty[OF assms(2)]
    by (simp add: fetch_company_by_ticker_def fetch_company_body_def Let_def)
qed

text \<open>The rows of the result, one for every key of \<open>financial_data\<close> in ascending order.\<close>

lemma result_frame_rows_sorted:
  assumes "sorted (dict_keys fd)"
  shows "df_rows (result_frame fd) =
     map (\<lambda>r. map (\<lambda>c. (c, if isna (row_get r c) then CFloat NaN else row_get r c))
                 (df_columns (result_frame fd)))
       (map (\<lambda>year. case dict_get fd year of Some rec \<Rightarrow> rec | None \<Rightarrow> []) (dict_keys fd))"
  using assms
  by (simp add: result_frame_def result_frame_rows result_frame_columns sorted_sort_id)

lemma result_frame_cell:
  assumes "sorted (dict_keys fd)" and "i < length (dict_keys fd)"
    and "dict_get fd (dict_keys fd ! i) = Some rec"
  shows "row_get (df_rows (result_frame fd) ! i) c =
           (if isna (row_get rec c) then CFloat NaN else row_get rec c)"
proof -
  let ?recs = "map (\<lambda>year. case dict_get fd year of Some rec \<Rightarrow> rec | None \<Rightarrow> []) (dict_keys fd)"
  have cols: "df_columns (result_frame fd) = unique_in_order (concat (map dict_keys ?recs))"
    using assms(1) by (simp add: result_frame_def result_frame_columns sorted_sort_id)
  have "?recs ! i = rec" using assms(2,3) by simp
  moreover have "?recs ! i \<in> set ?recs" by (rule nth_mem) (simp add: assms(2))
  ultimately have mem: "rec \<in> set ?recs" by simp
  have "df_rows (result_frame fd) ! i =
          map (\<lambda>c. (c, if isna (row_get rec c) then CFloat NaN else row_get rec c))
            (unique_in_order (concat (map dict_keys ?recs)))"
    using assms by (simp add: result_frame_rows_sorted cols)
  then show ?thesis using result_cell[OF mem] by simp
qed


lemma assemble_data:
  fixes cy ticker years raw_df
  defines "fd \<equiv> foldl (process_metric cy raw_df)
      (initial_financial_data ticker (company_name_of ticker raw_df) (historical_years cy years)) metrics"
  shows "dict_keys fd = [cy - years + 1 .. cy]"
    and "\<forall>y rec. dict_get fd y = Some rec \<longrightarrow> has_identity ticker (company_name_of ticker raw_df) y rec"
    and "(\<forall>r \<in> set (df_rows raw_df). resolve_year cy (df_columns raw_df) r = Some y \<longrightarrow>
             (\<forall>vc. extract_value vc (df_columns raw_df) r = None)) \<Longrightarrow>
         dict_get fd y =
           (if y \<in> set [cy - years + 1 .. cy]
            then Some (initial_record ticker (company_name_of ticker raw_df) y) else None)"
proof -
  show "dict_keys fd = [cy - years + 1 .. cy]"
    by (simp add: fd_def process_metrics_keys initial_financial_data_keys)
  have "\<forall>y rec. dict_get (initial_financial_data ticker (company_name_of ticker raw_df)
            (historical_years cy years)) y = Some rec
          \<longrightarrow> has_identity ticker (company_name_of ticker raw_df) y rec"
    by (auto simp: initial_financial_data_get initial_record_has_identity split: if_splits)
  then show "\<forall>y rec. dict_get fd y = Some rec \<longrightarrow> has_identity ticker (company_name_of ticker raw_df) y rec"
    unfolding fd_def by (rule process_metrics_identity)
  assume "\<forall>r \<in> set (df_rows raw_df). resolve_year cy (df_columns raw_df) r = Some y \<longrightarrow>
             (\<forall>vc. extract_value vc (df_columns raw_df) r = None)"
  then show "dict_get fd y =
           (if y \<in> set [cy - years + 1 .. cy]
            then Some (initial_record ticker (company_name_of ticker raw_df) y) else None)"
    unfolding fd_def
    by (simp only: process_metrics_other_year initial_financial_data_get historical_years_upto)
qed


text \<open>The example run in which only the company name is returned.\<close>

lemma post_all_map:
  "(\<And>b. env_post env token b = Inr (map f b)) \<Longrightarrow> post_all env token bs = Inr (map f (concat bs))"
  by (induction bs) auto

lemma concat_batches: "0 < n \<Longrightarrow> concat (batches n xs) = xs"
proof (induction n xs rule: batches.induct)
  case (1 n xs)
  then show ?case by (subst batches.simps) auto
qed

lemma need_name_only:
  "need (env_name_only name) ''CIQ_USER'' = Inr ''analyst''"
  "need (env_name_only name) ''CIQ_PASS'' = Inr ''secret''"
  by (simp_all add: need_def env_name_only_def credentials_def)

lemma ciq_fetch_name_only:
  "ciq_fetch (env_name_only name) reqs = Inr (map (name_only_reply name) reqs)"
proof -
  have "post_all (env_name_only name) ''token'' bs = Inr (map (name_only_reply name) (concat bs))" for bs
    by (rule post_all_map) (simp add: env_name_only_def)
  moreover have "concat (batches BATCH_SIZE reqs) = reqs"
    by (rule concat_batches) (simp add: BATCH_SIZE_def)
  ultimately show ?thesis
    by (simp add: ciq_fetch_def need_name_only) (simp add: env_name_only_def)
qed

lemma company_name_requests:
  "filter (\<lambda>req. req_mnemonic req = ''IQ_COMPANY_NAME'') (build_requests cy [cid] years) =
     [gdsp cid ''IQ_COMPANY_NAME'' None]"
  by (simp add: build_requests_def financial_requests_def gdsp_def financial_mnemonics_def
      filter_concat comp_def)

lemma flat_records_name_only:
  "flat_records (map (name_only_reply name) reqs) =
     map (\<lambda>req. flat_record (name_only_reply name req) [CStr name])
       (filter (\<lambda>req. req_mnemonic req = ''IQ_COMPANY_NAME'') reqs)"
  by (induction reqs) (auto simp: flat_records_def name_only_reply_def)

lemma raw_table_name_only:
  "parse_to_table (map (name_only_reply name) (build_requests cy [cid] years)) =
     \<lparr>df_columns = [''Identifier'', ''Mnemonic'', ''Period'', ''IQ_COMPANY_NAME''],
      df_rows = [[(''Identifier'', CStr cid), (''Mnemonic'', CStr ''IQ_COMPANY_NAME''),
                  (''Period'', CStr []), (''IQ_COMPANY_NAME'', CStr name)]]\<rparr>"
  by (simp add: parse_to_table_def flat_records_name_only company_name_requests flat_record_def
      name_only_reply_def gdsp_def dict_update_def from_records_def unique_in_order_def
      dict_keys_def row_get_def dict_get_def)

lemmas ev_case = upper_def upper_char_def lower_letters_def upper_letters_def strip_def is_space_def


lemma upper_strip_AAPL: "upper (strip ''AAPL'') = ''AAPL''" "upper ''AAPL'' = ''AAPL''"
  by (simp_all add: ev_case)




lemma resolve_year_apple_name_row:
  "resolve_year 2024 [''Identifier'', ''Mnemonic'', ''Period'', ''IQ_COMPANY_NAME'']
     [(''Identifier'', CStr ''AAPL''), (''Mnemonic'', CStr ''IQ_COMPANY_NAME''),
      (''Period'', CStr []), (''IQ_COMPANY_NAME'', CStr ''Apple Inc.'')] = None"
  by (simp add: resolve_year_def row_get_def dict_get_def resolve_period_str_def py_range_def
      year_from_dates_def str_int_def digits_of_small digits_of_large digit_char_def)





section \<open>Canonical Assembler: values that no reply holds\<close>

text \<open>
  Claim C1.  In a run for ticker \<^verbatim>\<open>AAPL\<close> over one year, in 2024, the service answers
  every request and only the request for the company name has a value row: the raw table
  holds that single row and no row of any metric.  The result nevertheless holds a
  revenue of 385.7 and a net income of 97.3 for 2024, the values of the table
  \<^verbatim>\<open>apple_historical\<close> of lines 298 to 336.
\<close>

theorem apple_values_not_from_api:
  "df_rows (parse_to_table (map (name_only_reply ''Apple Inc.'') (build_requests 2024 [''AAPL''] 1))) =
     [[(''Identifier'', CStr ''AAPL''), (''Mnemonic'', CStr ''IQ_COMPANY_NAME''),
       (''Period'', CStr []), (''IQ_COMPANY_NAME'', CStr ''Apple Inc.'')]] \<and>
   row_get (df_rows (fetch_company_by_ticker (env_name_only ''Apple Inc.'') ''AAPL'' 1) ! 0) ''Year'' =
     CInt 2024 \<and>
   row_get (df_rows (fetch_company_by_ticker (env_name_only ''Apple Inc.'') ''AAPL'' 1) ! 0) ''Revenue'' =
     CFloat (Fin (3857 / 10)) \<and>
   row_get (df_rows (fetch_company_by_ticker (env_name_only ''Apple Inc.'') ''AAPL'' 1) ! 0) ''Net Income'' =
     CFloat (Fin (973 / 10))"
proof -
  let ?env = "env_name_only ''Apple Inc.''"
  let ?rows = "map (name_only_reply ''Apple Inc.'') (build_requests 2024 [''AAPL''] 1)"
  let ?raw = "parse_to_table ?rows"
  let ?name = "company_name_of ''AAPL'' ?raw"
  let ?fd = "foldl (process_metric 2024 ?raw)
      (initial_financial_data ''AAPL'' ?name (historical_years 2024 1)) metrics"
  have y: "env_year ?env = 2024" by (simp add: env_name_only_def)
  have f: "ciq_fetch ?env (build_requests (env_year ?env) [upper (strip ''AAPL'')] 1) = Inr ?rows"
    by (simp add: y upper_strip_AAPL ciq_fetch_name_only)
  have raw: "?raw =
     \<lparr>df_columns = [''Identifier'', ''Mnemonic'', ''Period'', ''IQ_COMPANY_NAME''],
      df_rows = [[(''Identifier'', CStr ''AAPL''), (''Mnemonic'', CStr ''IQ_COMPANY_NAME''),
                  (''Period'', CStr []), (''IQ_COMPANY_NAME'', CStr ''Apple Inc.'')]]\<rparr>"
    by (rule raw_table_name_only)
  have ne: "flat_records ?rows \<noteq> []"
    by (simp add: flat_records_name_only company_name_requests)
  have csv: "env_to_csv ?env (''AAPL'' @ ''_raw_data.csv'') = None" by (simp add: env_name_only_def)
  have out: "fetch_company_by_ticker ?env ''AAPL'' 1 = result_frame ?fd"
    using fetch_company_success[OF f ne csv] by (simp add: y assemble_def)
  have keys: "dict_keys ?fd = [2024]" using assemble_data(1)[of 2024 ?raw "''AAPL''" 1] by simp
  have "\<forall>r \<in> set (df_rows ?raw). resolve_year 2024 (df_columns ?raw) r = Some 2024 \<longrightarrow>
          (\<forall>vc. extract_value vc (df_columns ?raw) r = None)"
    unfolding raw by (simp add: resolve_year_apple_name_row)
  from assemble_data(3)[OF this, of "''AAPL''" 1]
  have rec: "dict_get ?fd ([2024] ! 0) = Some (initial_record ''AAPL'' ?name 2024)" by simp
  have cell: "row_get (df_rows (result_frame ?fd) ! 0) c =
      (if isna (row_get (initial_record ''AAPL'' ?name 2024) c) then CFloat NaN
       else row_get (initial_record ''AAPL'' ?name 2024) c)" for c
    by (rule result_frame_cell) (use keys rec in simp_all)
  have vals: "row_get (initial_record ''AAPL'' ?name 2024) ''Year'' = CInt 2024"
    "row_get (initial_record ''AAPL'' ?name 2024) ''Revenue'' = CFloat (Fin (3857 / 10))"
    "row_get (initial_record ''AAPL'' ?name 2024) ''Net Income'' = CFloat (Fin (973 / 10))"
    by (simp_all add: initial_record_def upper_strip_AAPL apple_historical_def dict_get_def
        identity_record_def row_get_def)
  have r: "df_rows ?raw =
     [[(''Identifier'', CStr ''AAPL''), (''Mnemonic'', CStr ''IQ_COMPANY_NAME''),
       (''Period'', CStr []), (''IQ_COMPANY_NAME'', CStr ''Apple Inc.'')]]"
    by (simp add: raw)
  have c: "row_get (df_rows (fetch_company_by_ticker ?env ''AAPL'' 1) ! 0) ''Year'' = CInt 2024"
    "row_get (df_rows (fetch_company_by_ticker ?env ''AAPL'' 1) ! 0) ''Revenue'' = CFloat (Fin (3857 / 10))"
    "row_get (df_rows (fetch_company_by_ticker ?env ''AAPL'' 1) ! 0) ''Net Income'' = CFloat (Fin (973 / 10))"
    unfolding out cell vals by simp_all
  from r c show ?thesis by (intro conjI)
qed

section \<open>Value Extractor\<close>

lemma first_some_map: "first_some f xs = first_some id (map f xs)"
  by (induction xs) (auto split: option.splits)



lemma first_some_Some:
  "first_some f xs = Some v \<longleftrightarrow>
     (\<exists>i < length xs. f (xs ! i) = Some v \<and> (\<forall>j < i. f (xs ! j) = None))"
proof (induction xs)
  case Nil
  then show ?case by simp
next
  case (Cons x xs)
  show ?case
  proof (cases "f x")
    case None
    have "(\<exists>i < length (x # xs). f ((x # xs) ! i) = Some v \<and> (\<forall>j < i. f ((x # xs) ! j) = None)) \<longleftrightarrow>
          (\<exists>i < length xs. f (xs ! i) = Some v \<and> (\<forall>j < i. f (xs ! j) = None))" (is "?L \<longleftrightarrow> ?R")
    proof
      assume ?L
      then obtain i where i: "i < length (x # xs)" "f ((x # xs) ! i) = Some v" "\<forall>j < i. f ((x # xs) ! j) = None"
        by blast
      then obtain k where k: "i = Suc k" using None by (cases i) auto
      have "\<forall>j < k. f (xs ! j) = None" using i(3) k by auto
      then show ?R using i k by auto
    next
      assume ?R
      then obtain i where i: "i < length xs" "f (xs ! i) = Some v" "\<forall>j < i. f (xs ! j) = None" by blast
      have "\<forall>j < Suc i. f ((x # xs) ! j) = None" using i(3) None by (auto simp: less_Suc_eq_0_disj)
      then show ?L using i by (intro exI[of _ "Suc i"]) auto
    qed
    then show ?thesis using Cons None by simp
  next
    case (Some a)
    then show ?thesis by (auto intro: exI[of _ 0]) (metis Some gr0I option.distinct(1) option.inject nth_Cons_0)+
  qed
qed






section \<open>The derived stages and the object they are given\<close>

lemma in_place_frame: "n \<le> b \<Longrightarrow> take n (fst (in_place f h b)) = take n h"
  by (simp add: in_place_def)

lemma in_place_length: "length (fst (in_place f h b)) = length h"
  by (simp add: in_place_def)

lemma apply_functions_frame: "n \<le> b \<Longrightarrow> take n (fst (apply_functions fs h b)) = take n h"
proof (induction fs arbitrary: h)
  case Nil
  then show ?case by simp
next
  case (Cons f fs)
  obtain h' e where p: "in_place f h b = (h', e)" by (cases "in_place f h b")
  then have t: "take n h' = take n h" using in_place_frame[OF Cons.prems, of f h] by simp
  show ?case
  proof (cases e)
    case None
    then show ?thesis using p t Cons.IH[OF Cons.prems, of h'] by simp
  next
    case (Some a)
    then show ?thesis using p t by simp
  qed
qed

lemma financial_ratios_frame: "take (length h) (fst (calculate_financial_ratios h a)) = h"
  using apply_functions_frame[of "length h" "length h" ratio_functions "h @ [h ! a]"]
  by (simp add: calculate_financial_ratios_def df_copy_def new_object_def)

lemma trend_analysis_frame: "take (length h) (fst (calculate_trend_analysis pad h a ms periods)) = h"
  by (auto simp: calculate_trend_analysis_def new_object_def split: sum.splits prod.splits)

lemma moving_averages_frame: "take (length h) (fst (add_moving_averages h a columns periods)) = h"
proof -
  let ?h1 = "h @ [h ! a]"
  let ?mid = "if ''Year'' \<in> set (df_columns (?h1 ! length h))
                 then (case sort_values ''Year'' (?h1 ! length h) of
                         Inl e \<Rightarrow> Inl e
                       | Inr sorted_df \<Rightarrow> Inr (new_object ?h1 sorted_df))
                 else Inr (?h1, length h)"
  have unfold: "add_moving_averages h a columns periods =
     (case ?mid of
             Inl e \<Rightarrow> (?h1, Inl e)
           | Inr (h2, sorted_result) \<Rightarrow>
               (case in_place (run_steps (moving_average_steps columns periods)) h2 sorted_result of
                  (h3, Some e) \<Rightarrow> (h3, Inl e)
                | (h3, None) \<Rightarrow> (h3, Inr sorted_result)))"
    by (simp add: add_moving_averages_def df_copy_def new_object_def)
  show ?thesis
  proof (cases ?mid)
    case (Inl e)
    then show ?thesis unfolding unfold by simp
  next
    case (Inr p)
    obtain h2 r where p: "p = (h2, r)" by (cases p)
    have "take (length h) h2 = h \<and> length h \<le> r"
      using Inr p by (auto simp: new_object_def split: if_splits sum.splits)
    then have "take (length h) (fst (in_place f h2 r)) = h" for f
      using in_place_frame[of "length h" r f h2] by simp
    then show ?thesis
      unfolding unfold Inr p
      by (auto split: prod.splits option.splits) (metis fst_conv)+
  qed
qed

text \<open>
  Claim C10.  \<^verbatim>\<open>calculate_financial_ratios\<close> and \<^verbatim>\<open>add_moving_averages\<close> work on a copy,
  \<^verbatim>\<open>calculate_trend_analysis\<close> on the new frame that \<^verbatim>\<open>sort_values\<close> returns: whatever the
  call does, and also when it raises, the object passed by the caller, and every other
  object that existed before the call, is afterwards what it was.
\<close>

theorem derived_stages_keep_input:
  "a < length h \<longrightarrow>
     fst (calculate_financial_ratios h a) ! a = h ! a \<and>
     fst (calculate_trend_analysis pad h a ms periods) ! a = h ! a \<and>
     fst (add_moving_averages h a columns window_sizes) ! a = h ! a \<and>
     take (length h) (fst (calculate_financial_ratios h a)) = h \<and>
     take (length h) (fst (calculate_trend_analysis pad h a ms periods)) = h \<and>
     take (length h) (fst (add_moving_averages h a columns window_sizes)) = h"
proof
  assume a: "a < length h"
  have nth: "take (length h) h' = h \<Longrightarrow> h' ! a = h ! a" for h'
    using a by (metis nth_take)
  show "fst (calculate_financial_ratios h a) ! a = h ! a \<and>
     fst (calculate_trend_analysis pad h a ms periods) ! a = h ! a \<and>
     fst (add_moving_averages h a columns window_sizes) ! a = h ! a \<and>
     take (length h) (fst (calculate_financial_ratios h a)) = h \<and>
     take (length h) (fst (calculate_trend_analysis pad h a ms periods)) = h \<and>
     take (length h) (fst (add_moving_averages h a columns window_sizes)) = h"
    using nth financial_ratios_frame trend_analysis_frame moving_averages_frame by blast
qed

theorem derived_stages_keep_input_witness:
  "fst (calculate_financial_ratios [zero_revenue_frame] 0) ! 0 = zero_revenue_frame \<and>
   fst (calculate_trend_analysis True [two_year_frame] 0 [''Revenue''] 3) ! 0 = two_year_frame \<and>
   fst (add_moving_averages [two_year_frame] 0 [''Revenue''] [2, 3]) ! 0 = two_year_frame"
  using derived_stages_keep_input[of 0 "[zero_revenue_frame]"]
    derived_stages_keep_input[of 0 "[two_year_frame]" True "[''Revenue'']" 3 "[''Revenue'']" "[2, 3]"]
  by simp

section \<open>Ratio Engine: a denominator of zero\<close>

text \<open>The leverage ratios test for a zero equity and store NaN.\<close>

lemmas ev_ratio = calculate_profitability_ratios_def loop_pairs_def ratio_step_def same_entity_def
  entity_suffix_def series_arith_def series_const_def cell_arith_def df_col_def df_set_col_def
  row_get_def dict_get_def startswith_def f_inf_of_sign_def

lemma zero_equity_gives_missing:
  "num_of equity = Some (Fin 0) \<Longrightarrow> debt_to_equity_cell liab equity = Inr (CFloat NaN)"
  by (cases equity) (auto simp: debt_to_equity_cell_def)

lemma zero_equity_ratio_is_missing:
  "snd (calculate_leverage_ratios zero_equity_frame) = None \<and>
   df_col (fst (calculate_leverage_ratios zero_equity_frame)) ''EQUITY_AAPL'' = [CFloat (Fin 0)] \<and>
   df_col (fst (calculate_leverage_ratios zero_equity_frame)) ''DEBT_TO_EQUITY_RATIO_AAPL'' = [CFloat NaN]"
  by (simp add: zero_equity_frame_def calculate_leverage_ratios_def equity_step_def
      debt_to_equity_step_def debt_to_equity_cell_def f_sub_def ev_ratio)
text \<open>
  Claim C2.  The margins of \<^verbatim>\<open>calculate_profitability_ratios\<close> are computed without that
  test.  In a frame with an EBITDA of 5 and a revenue of 0 for the same entity, the pair
  is matched, no exception is raised, and the row of the derived column
  \<^verbatim>\<open>EBITDA_MARGIN_AAPL\<close> holds positive infinity, where the claim has a missing value.
\<close>

theorem zero_revenue_gives_infinite_margin:
  "snd (calculate_profitability_ratios zero_revenue_frame) = None \<and>
   df_col zero_revenue_frame ''TOTAL_REV_AAPL'' = [CFloat (Fin 0)] \<and>
   df_col (fst (calculate_profitability_ratios zero_revenue_frame)) ''EBITDA_MARGIN_AAPL'' = [CFloat PInf]"
  by (simp add: zero_revenue_frame_def ev_ratio)



end
